theory Spec2Isabelle
  imports Complex_Main "HOL-Library.Multiset"
begin

section \<open>Python strings\<close>

text \<open>
  A Python \<^verbatim>\<open>str\<close> is a sequence of Unicode code points. The input file is decoded
  from UTF-8 before any line is looked at, so a string is modelled as the list of its code
  points, and an ASCII literal of the source is written \<open>py ''...''\<close>.
\<close>

type_synonym pystr = "nat list"

definition py :: "string \<Rightarrow> pystr" where
  "py s = map of_char s"

text \<open>
  \<^verbatim>\<open>str.isspace\<close> for one code point: the ASCII whitespace table of CPython
  (TAB, LF, VT, FF, CR, FS, GS, RS, US, SPACE) and the non-ASCII code points whose
  category is Zs or whose bidirectional class is WS, B or S.
\<close>

definition isspace :: "nat \<Rightarrow> bool" where
  "isspace c =
     ((9 \<le> c \<and> c \<le> 13) \<or> (28 \<le> c \<and> c \<le> 32) \<or> c = 133 \<or> c = 160 \<or> c = 5760
      \<or> (8192 \<le> c \<and> c \<le> 8202) \<or> c = 8232 \<or> c = 8233 \<or> c = 8239 \<or> c = 8287
      \<or> c = 12288)"

text \<open>\<^verbatim>\<open>s.strip()\<close> with no argument: whitespace is dropped from both ends.\<close>

definition lstrip :: "pystr \<Rightarrow> pystr" where
  "lstrip s = dropWhile isspace s"

definition rstrip :: "pystr \<Rightarrow> pystr" where
  "rstrip s = rev (dropWhile isspace (rev s))"

definition strip :: "pystr \<Rightarrow> pystr" where
  "strip s = rstrip (lstrip s)"

text \<open>\<^verbatim>\<open>s.startswith(sub)\<close> and the substring test \<^verbatim>\<open>sub in s\<close>.\<close>

fun startswith :: "pystr \<Rightarrow> pystr \<Rightarrow> bool" where
  "startswith s [] = True"
| "startswith [] (c # sub) = False"
| "startswith (d # s) (c # sub) = (d = c \<and> startswith s sub)"

fun str_in :: "pystr \<Rightarrow> pystr \<Rightarrow> bool" where
  "str_in sub [] = (sub = [])"
| "str_in sub (d # s) = (startswith (d # s) sub \<or> str_in sub s)"

section \<open>Module configuration and the checker object\<close>

text \<open>
  The module globals \<^verbatim>\<open>TEST_URL\<close> and \<^verbatim>\<open>MAX_WORKERS\<close> are assigned by
  \<^verbatim>\<open>main\<close> from the command line before the checker runs; \<^verbatim>\<open>TIMEOUT\<close> is
  only the default of the \<^verbatim>\<open>-t\<close> option.
\<close>

record globals =
  TEST_URL :: pystr
  MAX_WORKERS :: int

definition TIMEOUT :: int where
  "TIMEOUT = 10"

definition default_globals :: globals where
  "default_globals = \<lparr>TEST_URL = py ''http://www.google.com'', MAX_WORKERS = 50\<rparr>"

text \<open>
  What the program prints, one constructor per \<^verbatim>\<open>print\<close> call of the source, with
  the values that are formatted into the line as arguments (the text itself, in
  particular the rendering of floats, is not modelled).
\<close>

datatype out_line =
    Rule
  | Title
  | Loaded nat pystr
  | FileNotFoundMsg pystr
  | ReadErrorMsg
  | StartMsg int
  | TestUrlMsg pystr
  | TimeoutMsg int
  | WorkingMsg pystr real nat nat
  | FailedMsg pystr nat nat
  | CompletedMsg real
  | WorkingCountMsg nat nat
  | FailedCountMsg nat nat
  | SuccessRateMsg nat nat
  | NothingToSaveMsg
  | SavedMsg pystr
  | SaveErrorMsg
  | NoProxiesMsg

text \<open>
  The state a method works on: the six attributes of the \<^verbatim>\<open>ProxyChecker\<close> object,
  followed by the two effects of the process that the methods have, the lines printed so
  far and the files written so far (path to content).
\<close>

record state =
  proxy_file :: pystr
  output_file :: pystr
  timeout :: int
  working_proxies :: "pystr list"
  failed_proxies :: "pystr list"
  total_proxies :: nat
  stdout :: "out_line list"
  files :: "pystr \<rightharpoonup> pystr"

text \<open>
  \<^verbatim>\<open>ProxyChecker.__init__\<close>. \<^verbatim>\<open>output_file or "working_proxies.txt"\<close>
  takes the default for \<^verbatim>\<open>None\<close> and for the empty string. The process starts with
  nothing printed and no file written.
\<close>

definition init :: "pystr \<Rightarrow> pystr option \<Rightarrow> int \<Rightarrow> state" where
  "init pfile ofile tmo =
     \<lparr>proxy_file = pfile,
      output_file = (case ofile of None \<Rightarrow> py ''working_proxies.txt''
                     | Some p \<Rightarrow> if p = [] then py ''working_proxies.txt'' else p),
      timeout = tmo,
      working_proxies = [],
      failed_proxies = [],
      total_proxies = 0,
      stdout = [],
      files = Map.empty\<rparr>"

section \<open>The probe: \<^verbatim>\<open>check_proxy\<close>\<close>

text \<open>
  The one call \<^verbatim>\<open>requests.get(TEST_URL, proxies=..., timeout=..., allow_redirects=True)\<close>
  with its arguments; the \<^verbatim>\<open>proxies\<close> dictionary is kept as its items in insertion
  order.
\<close>

record request =
  req_url :: pystr
  req_proxies :: "(pystr \<times> pystr) list"
  req_timeout :: int
  req_allow_redirects :: bool

text \<open>
  The exceptions the handlers of \<^verbatim>\<open>check_proxy\<close> tell apart, in the order of the
  \<^verbatim>\<open>except\<close> clauses; \<open>OtherException\<close> is any other subclass of
  \<^verbatim>\<open>Exception\<close>. The call either returns a response, of which only the status code
  is read, or raises.
\<close>

datatype req_exception =
  ProxyError | ConnectTimeout | ReadTimeout | ConnectionError | OtherException

datatype get_outcome = Response int | Raises req_exception

text \<open>
  What one probe meets outside the program: the reading of \<^verbatim>\<open>time.time()\<close> before
  the request, how the network answers a request, and the reading of
  \<^verbatim>\<open>time.time()\<close> once a response has come back.
\<close>

record probe_world =
  clock_before :: real
  requests_get :: "request \<Rightarrow> get_outcome"
  clock_after :: real

text \<open>
  \<open>check_proxy\<close>, in three parts: the local variable \<^verbatim>\<open>proxy_url\<close> (lines 49
  to 52), the request made of the \<^verbatim>\<open>proxies\<close> dictionary and the other arguments
  of the call (lines 54 to 66), and the method itself, which returns the tuple
  (address, working, elapsed time).
\<close>

definition proxy_url :: "pystr \<Rightarrow> pystr" where
  "proxy_url proxy =
     (if \<not> str_in (py ''://'') proxy then py ''http://'' @ proxy else proxy)"

definition probe_request :: "globals \<Rightarrow> state \<Rightarrow> pystr \<Rightarrow> request" where
  "probe_request g self proxy =
     \<lparr>req_url = TEST_URL g,
      req_proxies = [(py ''http'', proxy_url proxy), (py ''https'', proxy_url proxy)],
      req_timeout = timeout self,
      req_allow_redirects = True\<rparr>"

definition check_proxy :: "globals \<Rightarrow> state \<Rightarrow> probe_world \<Rightarrow> pystr \<Rightarrow> pystr \<times> bool \<times> real" where
  "check_proxy g self w proxy =
     (let start_time = clock_before w in
      case requests_get w (probe_request g self proxy) of
        Response status_code \<Rightarrow>
          (let elapsed = clock_after w - start_time in
           if status_code = 200 then (proxy, True, elapsed)
           else (proxy, False, elapsed))
      | Raises e \<Rightarrow>
          (case e of
             ProxyError \<Rightarrow> (proxy, False, 0)
           | ConnectTimeout \<Rightarrow> (proxy, False, 0)
           | ReadTimeout \<Rightarrow> (proxy, False, 0)
           | ConnectionError \<Rightarrow> (proxy, False, 0)
           | OtherException \<Rightarrow> (proxy, False, 0)))"

section \<open>Methods that can raise\<close>

text \<open>
  The exceptions that leave a method of the checker: \<^verbatim>\<open>sys.exit(n)\<close> raises
  \<^verbatim>\<open>SystemExit\<close>, \<^verbatim>\<open>ThreadPoolExecutor\<close> raises \<^verbatim>\<open>ValueError\<close> for a
  worker count that is not positive, and the success rate divides by
  \<^verbatim>\<open>self.total_proxies\<close>. A method returns the outcome together with the state it
  leaves behind.
\<close>

datatype py_exception = SystemExit int | ValueError | ZeroDivisionError

datatype 'a outcome = Return 'a | Raise py_exception

definition print :: "out_line \<Rightarrow> state \<Rightarrow> state" where
  "print l self = self\<lparr>stdout := stdout self @ [l]\<rparr>"

section \<open>The world outside the program\<close>

text \<open>
  Opening the input file and iterating over it either yields its lines (each with its
  line terminator, as file iteration gives them), or raises
  \<^verbatim>\<open>FileNotFoundError\<close>, or raises some other exception (no permission, a
  directory, bytes that are not UTF-8).
\<close>

datatype read_outcome = FileLines "pystr list" | FileNotFoundError | ReadException

text \<open>
  Opening the output file for writing and writing one line per working address either
  succeeds, or \<^verbatim>\<open>open\<close> raises and the file is not touched (\<open>OpenFails\<close>), or
  the file has been created and holds the first \<open>k\<close> lines when a write or the final
  flush raises (\<open>WriteFailsAt k\<close>).
\<close>

datatype write_outcome = WriteOk | OpenFails | WriteFailsAt nat

text \<open>
  What a run meets: the input file, one probe world per submitted probe, the completion
  schedule of the pool, the two clock readings around the batch, and the fate of the
  output file.
\<close>

record world =
  open_read :: "pystr \<Rightarrow> read_outcome"
  probes :: "nat \<Rightarrow> probe_world"
  completion :: "nat list"
  batch_clock_start :: real
  batch_clock_end :: real
  open_write :: "pystr \<Rightarrow> write_outcome"

section \<open>The loader: \<^verbatim>\<open>load_proxies\<close>\<close>

definition load_proxies :: "world \<Rightarrow> state \<Rightarrow> pystr list outcome \<times> state" where
  "load_proxies w self =
     (case open_read w (proxy_file self) of
        FileLines f \<Rightarrow>
          (let proxies = [strip line. line \<leftarrow> f, strip line \<noteq> []];
               self = self\<lparr>total_proxies := length proxies\<rparr>;
               self = print (Loaded (total_proxies self) (proxy_file self)) self
           in (Return proxies, self))
      | FileNotFoundError \<Rightarrow>
          (Raise (SystemExit 1), print (FileNotFoundMsg (proxy_file self)) self)
      | ReadException \<Rightarrow>
          (Raise (SystemExit 1), print ReadErrorMsg self))"

section \<open>The dispatcher: \<^verbatim>\<open>check_all_proxies\<close>\<close>

text \<open>
  \<^verbatim>\<open>executor.submit(self.check_proxy, proxy) for proxy in proxies\<close>: one future per
  element of the list, the \<open>i\<close>-th of them running the probe in the \<open>i\<close>-th probe
  world. A future is represented by the tuple its \<^verbatim>\<open>result()\<close> returns.
\<close>

definition submit_all ::
  "globals \<Rightarrow> state \<Rightarrow> (nat \<Rightarrow> probe_world) \<Rightarrow> pystr list \<Rightarrow> (pystr \<times> bool \<times> real) list" where
  "submit_all g self pw proxies =
     map (\<lambda>(i, proxy). check_proxy g self (pw i) proxy) (enumerate 0 proxies)"

text \<open>
  \<^verbatim>\<open>concurrent.futures.as_completed\<close> yields every pending future once, in the order
  in which they finish. That order is decided outside the program: the schedule says,
  at each step, which of the still pending futures finishes next (its position among
  them, modulo their number; the first one when the schedule is used up).
\<close>

function as_completed :: "nat list \<Rightarrow> 'a list \<Rightarrow> 'a list" where
  "as_completed sched [] = []"
| "as_completed sched (f # fs) =
     (let pending = f # fs;
          i = (case sched of [] \<Rightarrow> 0 | c # _ \<Rightarrow> c mod length pending)
      in pending ! i # as_completed (tl sched) (take i pending @ drop (Suc i) pending))"
  by pat_completeness auto
termination
  by (relation "measure (\<lambda>(sched, pending). length pending)") (auto split: list.splits)

text \<open>The body of the \<^verbatim>\<open>for future in as_completed(...)\<close> loop, over the futures in
  the order they are yielded; \<open>checked\<close> is the loop's counter.\<close>

fun collect :: "(pystr \<times> bool \<times> real) list \<Rightarrow> nat \<Rightarrow> state \<Rightarrow> nat \<times> state" where
  "collect [] checked self = (checked, self)"
| "collect ((proxy, is_working, response_time) # futures) checked self =
     (let checked = checked + 1 in
      if is_working then
        collect futures checked
          (print (WorkingMsg proxy response_time checked (total_proxies self))
             (self\<lparr>working_proxies := working_proxies self @ [proxy]\<rparr>))
      else
        collect futures checked
          (print (FailedMsg proxy checked (total_proxies self))
             (self\<lparr>failed_proxies := failed_proxies self @ [proxy]\<rparr>)))"

definition check_all_proxies :: "globals \<Rightarrow> world \<Rightarrow> pystr list \<Rightarrow> state \<Rightarrow> unit outcome \<times> state" where
  "check_all_proxies g w proxies self =
     (let self = print (StartMsg (MAX_WORKERS g)) self;
          self = print (TestUrlMsg (TEST_URL g)) self;
          self = print (TimeoutMsg (timeout self)) self;
          start_time = batch_clock_start w
      in
      if MAX_WORKERS g \<le> 0 then (Raise ValueError, self)
      else
        let future_to_proxy = submit_all g self (probes w) proxies;
            (checked, self) = collect (as_completed (completion w) future_to_proxy) 0 self;
            elapsed_total = batch_clock_end w - start_time;
            self = print Rule self;
            self = print (CompletedMsg elapsed_total) self;
            self = print (WorkingCountMsg (length (working_proxies self)) (total_proxies self)) self;
            self = print (FailedCountMsg (length (failed_proxies self)) (total_proxies self)) self
        in
        if total_proxies self = 0 then (Raise ZeroDivisionError, self)
        else
          let self = print (SuccessRateMsg (length (working_proxies self)) (total_proxies self)) self;
              self = print Rule self
          in (Return (), self))"

section \<open>The reporter: \<^verbatim>\<open>save_working_proxies\<close>\<close>

text \<open>What the output file holds: each address followed by a line feed.\<close>

definition file_text :: "pystr list \<Rightarrow> pystr" where
  "file_text ps = concat (map (\<lambda>proxy. proxy @ [10]) ps)"

text \<open>
  An exception while opening or writing is caught by the handler of the method, which
  prints the error and returns.
\<close>

definition save_working_proxies :: "world \<Rightarrow> state \<Rightarrow> unit outcome \<times> state" where
  "save_working_proxies w self =
     (if working_proxies self = [] then (Return (), print NothingToSaveMsg self)
      else
        case open_write w (output_file self) of
          WriteOk \<Rightarrow>
            (Return (),
             print (SavedMsg (output_file self))
               (self\<lparr>files := (files self)(output_file self \<mapsto> file_text (working_proxies self))\<rparr>))
        | OpenFails \<Rightarrow> (Return (), print SaveErrorMsg self)
        | WriteFailsAt k \<Rightarrow>
            (Return (),
             print SaveErrorMsg
               (self\<lparr>files := (files self)(output_file self \<mapsto> file_text (take k (working_proxies self)))\<rparr>)))"

section \<open>The pipeline: \<^verbatim>\<open>run\<close> and \<^verbatim>\<open>main\<close>\<close>

definition run :: "globals \<Rightarrow> world \<Rightarrow> state \<Rightarrow> unit outcome \<times> state" where
  "run g w self =
     (let self = print Rule self;
          self = print Title self;
          self = print Rule self
      in
      case load_proxies w self of
        (Raise e, self) \<Rightarrow> (Raise e, self)
      | (Return proxies, self) \<Rightarrow>
          if proxies = [] then (Return (), print NoProxiesMsg self)
          else
            (case check_all_proxies g w proxies self of
               (Raise e, self) \<Rightarrow> (Raise e, self)
             | (Return u, self) \<Rightarrow> save_working_proxies w self))"

text \<open>
  The parsed command line, defaults applied, and \<^verbatim>\<open>main\<close>: it assigns the two
  globals, builds the checker and runs it. The process ends with status 0 when
  \<^verbatim>\<open>run\<close> returns, with the status given to \<^verbatim>\<open>sys.exit\<close>, or with status 1 when
  another exception reaches the top level. An interrupt from the keyboard is outside
  the model.
\<close>

record args =
  arg_input_file :: pystr
  arg_output :: pystr
  arg_timeout :: int
  arg_workers :: int
  arg_url :: pystr

definition main :: "args \<Rightarrow> world \<Rightarrow> int \<times> state" where
  "main a w =
     (let g = \<lparr>TEST_URL = arg_url a, MAX_WORKERS = arg_workers a\<rparr>;
          checker = init (arg_input_file a) (Some (arg_output a)) (arg_timeout a)
      in
      case run g w checker of
        (Return u, s) \<Rightarrow> (0, s)
      | (Raise (SystemExit n), s) \<Rightarrow> (n, s)
      | (Raise e, s) \<Rightarrow> (1, s))"

section \<open>Notions used to state the properties\<close>

text \<open>
  The results of the probes of a batch in the order in which the loop of
  \<open>check_all_proxies\<close> receives them.
\<close>

definition completed :: "globals \<Rightarrow> world \<Rightarrow> state \<Rightarrow> pystr list \<Rightarrow> (pystr \<times> bool \<times> real) list" where
  "completed g w self proxies = as_completed (completion w) (submit_all g self (probes w) proxies)"

text \<open>The lines of the summary block printed by \<open>check_all_proxies\<close> after the loop
  (the two rules around it are printed by the banner as well).\<close>

fun is_summary_line :: "out_line \<Rightarrow> bool" where
  "is_summary_line (CompletedMsg t) = True"
| "is_summary_line (WorkingCountMsg n tot) = True"
| "is_summary_line (FailedCountMsg n tot) = True"
| "is_summary_line (SuccessRateMsg n tot) = True"
| "is_summary_line l = False"

text \<open>The candidates of a file: its lines stripped, without the blank ones.\<close>

definition nonblank_lines :: "pystr list \<Rightarrow> pystr list" where
  "nonblank_lines f = filter (\<lambda>p. p \<noteq> []) (map strip f)"

text \<open>The checker after the banner and a successful \<open>load_proxies\<close> that found \<open>ps\<close>.\<close>

definition loaded_state :: "state \<Rightarrow> pystr list \<Rightarrow> state" where
  "loaded_state self ps =
     self\<lparr>total_proxies := length ps,
          stdout := stdout self @ [Rule, Title, Rule, Loaded (length ps) (proxy_file self)]\<rparr>"

text \<open>
  Reading a text back line by line: the lines without their terminators (\<open>acc\<close> holds
  the line being read).
\<close>

fun read_lines :: "pystr \<Rightarrow> pystr \<Rightarrow> pystr list" where
  "read_lines acc [] = (if acc = [] then [] else [acc])"
| "read_lines acc (c # s) = (if c = 10 then acc # read_lines [] s else read_lines (acc @ [c]) s)"

section \<open>Example runs\<close>

text \<open>
  A fresh checker with the default settings, and three worlds. In the first, the file
  holds two addresses and a blank line; the first address answers with status 200, the
  second refuses the connection, and the second probe finishes first. The second world
  is the same with an output file that cannot be opened. In the third, the file holds
  only blank lines. The last definition is the configuration of a command line with
  \<^verbatim>\<open>-w 0\<close>.
\<close>

definition zero_workers :: globals where
  "zero_workers = default_globals\<lparr>MAX_WORKERS := 0\<rparr>"

definition example_checker :: state where
  "example_checker = init (py ''proxies.txt'') None TIMEOUT"

definition mixed_file :: "pystr list" where
  "mixed_file = [py '' 1.2.3.4:8080 '' @ [10], [10], py ''badhost:9999'' @ [10]]"

definition mixed_world :: world where
  "mixed_world =
     \<lparr>open_read = (\<lambda>p. FileLines mixed_file),
      probes = (\<lambda>i. if i = 0 then \<lparr>clock_before = 1, requests_get = (\<lambda>r. Response 200), clock_after = 3\<rparr>
                     else \<lparr>clock_before = 1, requests_get = (\<lambda>r. Raises ProxyError), clock_after = 2\<rparr>),
      completion = [1],
      batch_clock_start = 0,
      batch_clock_end = 4,
      open_write = (\<lambda>p. WriteOk)\<rparr>"

definition readonly_world :: world where
  "readonly_world = mixed_world\<lparr>open_write := (\<lambda>p. OpenFails)\<rparr>"

definition blank_world :: world where
  "blank_world =
     \<lparr>open_read = (\<lambda>p. FileLines [[32, 10], [10]]),
      probes = (\<lambda>i. \<lparr>clock_before = 0, requests_get = (\<lambda>r. Raises ProxyError), clock_after = 0\<rparr>),
      completion = [],
      batch_clock_start = 0,
      batch_clock_end = 0,
      open_write = (\<lambda>p. WriteOk)\<rparr>"

section \<open>The substring test\<close>

text \<open>
  \<open>str_in sub s\<close> holds exactly when \<open>sub\<close> occurs in \<open>s\<close> as a contiguous
  block, which is what \<^verbatim>\<open>sub in s\<close> means for Python strings.
\<close>

lemma startswith_iff: "startswith s sub \<longleftrightarrow> (\<exists>r. s = sub @ r)"
  by (induction s sub rule: startswith.induct) auto

lemma str_in_iff: "str_in sub s \<longleftrightarrow> (\<exists>a b. s = a @ sub @ b)"
proof (induction s)
  case Nil
  then show ?case by auto
next
  case (Cons d s)
  show ?case
  proof
    assume "str_in sub (d # s)"
    then consider "startswith (d # s) sub" | "str_in sub s" by auto
    then show "\<exists>a b. d # s = a @ sub @ b"
    proof cases
      case 1
      then obtain r where "d # s = sub @ r" by (auto simp: startswith_iff)
      then have "d # s = [] @ sub @ r" by simp
      then show ?thesis by blast
    next
      case 2
      then obtain a b where "s = a @ sub @ b" using Cons.IH by auto
      then have "d # s = (d # a) @ sub @ b" by simp
      then show ?thesis by blast
    qed
  next
    assume "\<exists>a b. d # s = a @ sub @ b"
    then obtain a b where ab: "d # s = a @ sub @ b" by auto
    show "str_in sub (d # s)"
    proof (cases a)
      case Nil
      with ab have "startswith (d # s) sub" by (auto simp: startswith_iff)
      then show ?thesis by simp
    next
      case (Cons x a')
      with ab have "s = a' @ sub @ b" by simp
      then have "str_in sub s" using Cons.IH by blast
      then show ?thesis by simp
    qed
  qed
qed

lemma str_in_append: "str_in sub s \<Longrightarrow> str_in sub (p @ s)"
  by (induction p) auto

lemma proxy_url_has_scheme: "str_in (py ''://'') (proxy_url proxy)"
  by (simp add: proxy_url_def py_def)

section \<open>Properties of the probe\<close>

text \<open>
  Claim C2. For every proxy address, when the GET of the probe completes with a response,
  \<open>check_proxy\<close> returns the address, the flag Working exactly when the status code is
  200 (any other status code gives Failed), and as elapsed time the measured duration,
  the difference of the two clock readings around the request, not the constant zero of
  the fault paths: the reported value is zero only if the two readings are equal.
\<close>

theorem check_proxy_status:
  assumes "requests_get w (probe_request g self proxy) = Response status_code"
  shows "check_proxy g self w proxy = (proxy, status_code = 200, clock_after w - clock_before w)
         \<and> (fst (snd (check_proxy g self w proxy)) \<longleftrightarrow> status_code = 200)
         \<and> (snd (snd (check_proxy g self w proxy)) = 0 \<longleftrightarrow> clock_after w = clock_before w)"
  using assms by (simp add: check_proxy_def Let_def)

theorem check_proxy_status_witness:
  "check_proxy default_globals (init (py ''proxies.txt'') None 10)
     \<lparr>clock_before = 100, requests_get = (\<lambda>r. Response 200), clock_after = 101.5\<rparr> (py ''1.2.3.4:8080'')
     = (py ''1.2.3.4:8080'', True, 1.5)
   \<and> check_proxy default_globals (init (py ''proxies.txt'') None 10)
     \<lparr>clock_before = 100, requests_get = (\<lambda>r. Response 404), clock_after = 100.25\<rparr> (py ''1.2.3.4:8080'')
     = (py ''1.2.3.4:8080'', False, 0.25)"
  using check_proxy_status [of "\<lparr>clock_before = 100, requests_get = (\<lambda>r. Response 200), clock_after = 101.5\<rparr>"
      default_globals "init (py ''proxies.txt'') None 10" "py ''1.2.3.4:8080''" 200]
    check_proxy_status [of "\<lparr>clock_before = 100, requests_get = (\<lambda>r. Response 404), clock_after = 100.25\<rparr>"
      default_globals "init (py ''proxies.txt'') None 10" "py ''1.2.3.4:8080''" 404]
  by simp

text \<open>
  Claim C3. For every proxy address and every fault raised by the request (proxy error,
  connect timeout, read timeout, connection error or any other exception),
  \<open>check_proxy\<close> has a value, the Failed result with elapsed time zero: each handler
  returns a tuple, and the last handler takes every exception the earlier ones leave, so
  nothing is raised to the caller.
\<close>

theorem check_proxy_fault:
  assumes "requests_get w (probe_request g self proxy) = Raises e"
  shows "check_proxy g self w proxy = (proxy, False, 0)"
  using assms by (cases e) (simp_all add: check_proxy_def)

theorem check_proxy_fault_witness:
  "check_proxy default_globals (init (py ''proxies.txt'') None 10)
     \<lparr>clock_before = 100, requests_get = (\<lambda>r. Raises ReadTimeout), clock_after = 110\<rparr> (py ''badhost:9999'')
     = (py ''badhost:9999'', False, 0)"
  using check_proxy_fault [of "\<lparr>clock_before = 100, requests_get = (\<lambda>r. Raises ReadTimeout), clock_after = 110\<rparr>"
      default_globals "init (py ''proxies.txt'') None 10" "py ''badhost:9999''" ReadTimeout]
  by simp

text \<open>The proxy URL of lines 49 to 52, with the substring test spelled out.\<close>

lemma proxy_url_cases:
  "if \<exists>a b. proxy = a @ py ''://'' @ b then proxy_url proxy = proxy
   else proxy_url proxy = py ''http://'' @ proxy"
  unfolding proxy_url_def str_in_iff [symmetric] by simp

lemma check_proxy_depends:
  assumes "requests_get w' (probe_request g self proxy) = requests_get w (probe_request g self proxy)"
    and "clock_before w' = clock_before w" and "clock_after w' = clock_after w"
  shows "check_proxy g self w' proxy = check_proxy g self w proxy"
  unfolding check_proxy_def using assms by (simp split: get_outcome.splits)

text \<open>
  What \<open>check_proxy\<close> returns, in terms of the answer of the network to the one
  request it sends: the call of lines 61 to 66 with its arguments written out.
\<close>

lemma check_proxy_eq:
  "check_proxy g self w proxy =
     (case requests_get w
             \<lparr>req_url = TEST_URL g,
              req_proxies = [(py ''http'', proxy_url proxy), (py ''https'', proxy_url proxy)],
              req_timeout = timeout self,
              req_allow_redirects = True\<rparr> of
        Response status_code \<Rightarrow> (proxy, status_code = 200, clock_after w - clock_before w)
      | Raises e \<Rightarrow> (proxy, False, 0))"
  by (simp add: check_proxy_def probe_request_def Let_def split: get_outcome.splits req_exception.splits)

lemma check_proxy_working_iff:
  "fst (snd (check_proxy g self w proxy)) \<longleftrightarrow>
     requests_get w
       \<lparr>req_url = TEST_URL g,
        req_proxies = [(py ''http'', proxy_url proxy), (py ''https'', proxy_url proxy)],
        req_timeout = timeout self,
        req_allow_redirects = True\<rparr> = Response 200"
  unfolding check_proxy_eq by (simp split: get_outcome.splits)

text \<open>
  Claim C8. For every proxy address, the proxy URL is the address itself when the address
  contains \<^verbatim>\<open>://\<close> and the address prefixed with \<^verbatim>\<open>http://\<close> exactly when it
  does not. \<open>check_proxy\<close> sends one request, the GET of the test URL whose
  \<^verbatim>\<open>proxies\<close> dictionary maps both \<^verbatim>\<open>http\<close> and \<^verbatim>\<open>https\<close> to that same
  proxy URL, with the configured timeout and with redirects followed: its result is the
  classification of the answer the network gives to exactly this request, it is Working
  if and only if that answer is a response with status 200, and it depends on the
  network through the answer to this request alone.
\<close>

theorem check_proxy_request:
  "(if \<exists>a b. proxy = a @ py ''://'' @ b then proxy_url proxy = proxy
    else proxy_url proxy = py ''http://'' @ proxy)
   \<and> check_proxy g self w proxy =
       (case requests_get w
               \<lparr>req_url = TEST_URL g,
                req_proxies = [(py ''http'', proxy_url proxy), (py ''https'', proxy_url proxy)],
                req_timeout = timeout self,
                req_allow_redirects = True\<rparr> of
          Response status_code \<Rightarrow> (proxy, status_code = 200, clock_after w - clock_before w)
        | Raises e \<Rightarrow> (proxy, False, 0))
   \<and> (fst (snd (check_proxy g self w proxy)) \<longleftrightarrow>
        requests_get w
          \<lparr>req_url = TEST_URL g,
           req_proxies = [(py ''http'', proxy_url proxy), (py ''https'', proxy_url proxy)],
           req_timeout = timeout self,
           req_allow_redirects = True\<rparr> = Response 200)
   \<and> probe_request g self proxy =
       \<lparr>req_url = TEST_URL g,
        req_proxies = [(py ''http'', proxy_url proxy), (py ''https'', proxy_url proxy)],
        req_timeout = timeout self,
        req_allow_redirects = True\<rparr>
   \<and> map_of (req_proxies (probe_request g self proxy)) (py ''http'') = Some (proxy_url proxy)
   \<and> map_of (req_proxies (probe_request g self proxy)) (py ''https'') = Some (proxy_url proxy)
   \<and> (requests_get w' (probe_request g self proxy) = requests_get w (probe_request g self proxy)
        \<and> clock_before w' = clock_before w \<and> clock_after w' = clock_after w
      \<longrightarrow> check_proxy g self w' proxy = check_proxy g self w proxy)"
proof (intro conjI impI)
  show "if \<exists>a b. proxy = a @ py ''://'' @ b then proxy_url proxy = proxy
    else proxy_url proxy = py ''http://'' @ proxy"
    by (rule proxy_url_cases)
  show "check_proxy g self w proxy =
       (case requests_get w
               \<lparr>req_url = TEST_URL g,
                req_proxies = [(py ''http'', proxy_url proxy), (py ''https'', proxy_url proxy)],
                req_timeout = timeout self,
                req_allow_redirects = True\<rparr> of
          Response status_code \<Rightarrow> (proxy, status_code = 200, clock_after w - clock_before w)
        | Raises e \<Rightarrow> (proxy, False, 0))"
    by (rule check_proxy_eq)
  show "fst (snd (check_proxy g self w proxy)) \<longleftrightarrow>
        requests_get w
          \<lparr>req_url = TEST_URL g,
           req_proxies = [(py ''http'', proxy_url proxy), (py ''https'', proxy_url proxy)],
           req_timeout = timeout self,
           req_allow_redirects = True\<rparr> = Response 200"
    by (rule check_proxy_working_iff)
  show "probe_request g self proxy =
       \<lparr>req_url = TEST_URL g,
        req_proxies = [(py ''http'', proxy_url proxy), (py ''https'', proxy_url proxy)],
        req_timeout = timeout self,
        req_allow_redirects = True\<rparr>"
    by (simp add: probe_request_def)
  show "map_of (req_proxies (probe_request g self proxy)) (py ''http'') = Some (proxy_url proxy)"
    by (simp add: probe_request_def)
  show "map_of (req_proxies (probe_request g self proxy)) (py ''https'') = Some (proxy_url proxy)"
    by (simp add: probe_request_def py_def)
next
  assume "requests_get w' (probe_request g self proxy) = requests_get w (probe_request g self proxy)
        \<and> clock_before w' = clock_before w \<and> clock_after w' = clock_after w"
  then show "check_proxy g self w' proxy = check_proxy g self w proxy"
    by (intro check_proxy_depends) simp_all
qed


theorem check_proxy_request_witness:
  "proxy_url (py ''1.2.3.4:8080'') = py ''http://1.2.3.4:8080''
   \<and> proxy_url (py ''socks5://1.2.3.4:1080'') = py ''socks5://1.2.3.4:1080''
   \<and> check_proxy default_globals (init (py ''proxies.txt'') None 10)
        \<lparr>clock_before = 1,
         requests_get = (\<lambda>r. if req_url r = py ''http://www.google.com''
                 \<and> req_proxies r = [(py ''http'', py ''http://1.2.3.4:8080''), (py ''https'', py ''http://1.2.3.4:8080'')]
                 \<and> req_timeout r = 10 \<and> req_allow_redirects r
               then Response 200 else Raises ProxyError),
         clock_after = 2\<rparr>
        (py ''1.2.3.4:8080'')
     = (py ''1.2.3.4:8080'', True, 1)
   \<and> check_proxy default_globals (init (py ''proxies.txt'') None 10)
        \<lparr>clock_before = 1,
         requests_get = (\<lambda>r. if req_url r = py ''http://www.google.com''
                 \<and> req_proxies r = [(py ''http'', py ''socks5://1.2.3.4:1080''), (py ''https'', py ''socks5://1.2.3.4:1080'')]
                 \<and> req_timeout r = 10 \<and> req_allow_redirects r
               then Response 200 else Raises ProxyError),
         clock_after = 2\<rparr>
        (py ''socks5://1.2.3.4:1080'')
     = (py ''socks5://1.2.3.4:1080'', True, 1)
   \<and> check_proxy default_globals (init (py ''proxies.txt'') None 10)
        \<lparr>clock_before = 1, requests_get = (\<lambda>r. if req_allow_redirects r then Response 200 else Raises ProxyError), clock_after = 2\<rparr>
        (py ''1.2.3.4:8080'')
     = check_proxy default_globals (init (py ''proxies.txt'') None 10)
        \<lparr>clock_before = 1, requests_get = (\<lambda>r. Response 200), clock_after = 2\<rparr>
        (py ''1.2.3.4:8080'')"
proof -
  let ?g = default_globals
  let ?self = "init (py ''proxies.txt'') None 10"
  let ?plain = "\<lparr>clock_before = 1,
         requests_get = (\<lambda>r. if req_url r = py ''http://www.google.com''
                 \<and> req_proxies r = [(py ''http'', py ''http://1.2.3.4:8080''), (py ''https'', py ''http://1.2.3.4:8080'')]
                 \<and> req_timeout r = 10 \<and> req_allow_redirects r
               then Response 200 else Raises ProxyError),
         clock_after = 2\<rparr>"
  let ?socks = "\<lparr>clock_before = 1,
         requests_get = (\<lambda>r. if req_url r = py ''http://www.google.com''
                 \<and> req_proxies r = [(py ''http'', py ''socks5://1.2.3.4:1080''), (py ''https'', py ''socks5://1.2.3.4:1080'')]
                 \<and> req_timeout r = 10 \<and> req_allow_redirects r
               then Response 200 else Raises ProxyError),
         clock_after = 2\<rparr>"
  let ?w' = "\<lparr>clock_before = 1, requests_get = (\<lambda>r. if req_allow_redirects r then Response 200 else Raises ProxyError), clock_after = 2\<rparr>"
  let ?w = "\<lparr>clock_before = 1, requests_get = (\<lambda>r. Response 200), clock_after = 2\<rparr>"
  have no_scheme: "(\<exists>a b. py ''1.2.3.4:8080'' = a @ py ''://'' @ b) = False"
    unfolding str_in_iff [symmetric] by (simp add: py_def)
  have scheme: "(\<exists>a b. py ''socks5://1.2.3.4:1080'' = a @ py ''://'' @ b) = True"
    unfolding str_in_iff [symmetric] by (simp add: py_def)
  have cfg: "TEST_URL ?g = py ''http://www.google.com''" "timeout ?self = 10"
    by (simp_all add: default_globals_def init_def)
  note plain = check_proxy_request [of "py ''1.2.3.4:8080''" ?g ?self ?plain ?plain]
  note socks = check_proxy_request [of "py ''socks5://1.2.3.4:1080''" ?g ?self ?socks ?socks]
  note dep = check_proxy_request [of "py ''1.2.3.4:8080''" ?g ?self ?w ?w']
  from plain have "proxy_url (py ''1.2.3.4:8080'') = py ''http://'' @ py ''1.2.3.4:8080''"
    by (simp only: no_scheme if_False)
  then have 1: "proxy_url (py ''1.2.3.4:8080'') = py ''http://1.2.3.4:8080''"
    by (simp add: py_def)
  from socks have 2: "proxy_url (py ''socks5://1.2.3.4:1080'') = py ''socks5://1.2.3.4:1080''"
    by (simp only: scheme if_True)
  from plain have 3: "check_proxy ?g ?self ?plain (py ''1.2.3.4:8080'') = (py ''1.2.3.4:8080'', True, 1)"
    by (simp add: 1 cfg)
  from socks have 4: "check_proxy ?g ?self ?socks (py ''socks5://1.2.3.4:1080'') = (py ''socks5://1.2.3.4:1080'', True, 1)"
    by (simp add: 2 cfg)
  have same: "requests_get ?w' (probe_request ?g ?self (py ''1.2.3.4:8080''))
      = requests_get ?w (probe_request ?g ?self (py ''1.2.3.4:8080''))
      \<and> clock_before ?w' = clock_before ?w \<and> clock_after ?w' = clock_after ?w"
    by (simp add: probe_request_def)
  have 5: "check_proxy ?g ?self ?w' (py ''1.2.3.4:8080'') = check_proxy ?g ?self ?w (py ''1.2.3.4:8080'')"
    by (rule dep [THEN conjunct2, THEN conjunct2, THEN conjunct2, THEN conjunct2, THEN conjunct2,
        THEN conjunct2, THEN mp, OF same])
  from 1 2 3 4 5 show ?thesis by (intro conjI)
qed

section \<open>Properties of the loader\<close>

text \<open>
  What \<open>strip\<close> returns: the line without the whitespace at its two ends. It is empty
  exactly for a line of whitespace only, and otherwise begins and ends with a character
  that is not whitespace.
\<close>

lemma strip_empty_iff: "strip s = [] \<longleftrightarrow> (\<forall>c \<in> set s. isspace c)"
proof
  assume "strip s = []"
  then have all: "\<forall>c \<in> set (dropWhile isspace s). isspace c"
    by (simp add: strip_def rstrip_def lstrip_def dropWhile_eq_Nil_conv)
  have "dropWhile isspace s = []"
  proof (rule ccontr)
    assume ne: "dropWhile isspace s \<noteq> []"
    then have "\<not> isspace (hd (dropWhile isspace s))" by (rule hd_dropWhile)
    moreover from ne have "hd (dropWhile isspace s) \<in> set (dropWhile isspace s)" by simp
    ultimately show False using all by blast
  qed
  then show "\<forall>c \<in> set s. isspace c" by (simp add: dropWhile_eq_Nil_conv)
next
  assume "\<forall>c \<in> set s. isspace c"
  then have "dropWhile isspace s = []" by (simp add: dropWhile_eq_Nil_conv)
  then show "strip s = []" by (simp only: strip_def rstrip_def lstrip_def rev.simps dropWhile.simps)
qed

lemma strip_ends:
  assumes "strip s \<noteq> []"
  shows "\<not> isspace (hd (strip s)) \<and> \<not> isspace (last (strip s))"
proof -
  let ?t = "dropWhile isspace s"
  let ?u = "dropWhile isspace (rev ?t)"
  have strip: "strip s = rev ?u" by (simp add: strip_def rstrip_def lstrip_def)
  with assms have u: "?u \<noteq> []" by simp
  then have t: "?t \<noteq> []" by (auto dest: set_dropWhileD)
  have "\<not> isspace (hd ?u)" using u by (rule hd_dropWhile)
  then have last: "\<not> isspace (last (strip s))" using u by (simp add: strip last_rev)
  have nsp: "\<not> isspace (hd ?t)" using t by (rule hd_dropWhile)
  have "hd ?t \<in> set (rev ?t)" using t by simp
  then have "last ?u = last (rev ?t)" using nsp by (rule dropWhile_last)
  then have "hd (strip s) = hd ?t" using u t by (simp add: strip hd_rev last_rev)
  with nsp last show ?thesis by simp
qed

lemma strip_decomp:
  "\<exists>a b. s = a @ strip s @ b \<and> (\<forall>c \<in> set a. isspace c) \<and> (\<forall>c \<in> set b. isspace c)"
proof -
  let ?t = "dropWhile isspace s"
  let ?a = "takeWhile isspace s"
  let ?b = "rev (takeWhile isspace (rev ?t))"
  have "rev ?t = takeWhile isspace (rev ?t) @ dropWhile isspace (rev ?t)" by simp
  then have "rev (rev ?t) = rev (takeWhile isspace (rev ?t) @ dropWhile isspace (rev ?t))"
    by (rule arg_cong)
  then have t: "?t = strip s @ ?b"
    by (simp only: rev_rev_ident rev_append strip_def rstrip_def lstrip_def)
  have "s = ?a @ ?t" by simp
  with t have "s = ?a @ strip s @ ?b" by simp
  moreover have "\<forall>c \<in> set ?a. isspace c" by (auto dest: set_takeWhileD)
  moreover have "\<forall>c \<in> set ?b. isspace c" by (auto dest: set_takeWhileD)
  ultimately show ?thesis by blast
qed

lemma loaded_eq:
  "[strip line. line \<leftarrow> f, strip line \<noteq> []] = filter (\<lambda>p. p \<noteq> []) (map strip f)"
  by (induction f) simp_all

lemma load_proxies_lines:
  assumes "open_read w (proxy_file self) = FileLines f"
  shows "load_proxies w self =
    (Return (filter (\<lambda>p. p \<noteq> []) (map strip f)),
     self\<lparr>total_proxies := length (filter (\<lambda>p. p \<noteq> []) (map strip f)),
          stdout := stdout self @ [Loaded (length (filter (\<lambda>p. p \<noteq> []) (map strip f))) (proxy_file self)]\<rparr>)"
  using assms by (simp add: load_proxies_def loaded_eq print_def Let_def)

lemma load_proxies_fails:
  assumes "open_read w (proxy_file self) = FileNotFoundError \<or> open_read w (proxy_file self) = ReadException"
  shows "load_proxies w self =
    (Raise (SystemExit 1),
     self\<lparr>stdout := stdout self @
        [if open_read w (proxy_file self) = FileNotFoundError then FileNotFoundMsg (proxy_file self) else ReadErrorMsg]\<rparr>)"
  using assms by (auto simp add: load_proxies_def print_def)

lemma run_load_fails:
  assumes "open_read w (proxy_file self) = FileNotFoundError \<or> open_read w (proxy_file self) = ReadException"
  shows "run g w self =
    (Raise (SystemExit 1),
     self\<lparr>stdout := stdout self @
        [Rule, Title, Rule,
         if open_read w (proxy_file self) = FileNotFoundError then FileNotFoundMsg (proxy_file self) else ReadErrorMsg]\<rparr>)"
proof -
  let ?s = "print Rule (print Title (print Rule self))"
  have pf: "proxy_file ?s = proxy_file self" by (simp add: print_def)
  have "load_proxies w ?s = (Raise (SystemExit 1),
     ?s\<lparr>stdout := stdout ?s @
        [if open_read w (proxy_file ?s) = FileNotFoundError then FileNotFoundMsg (proxy_file ?s) else ReadErrorMsg]\<rparr>)"
    using assms by (intro load_proxies_fails) (simp only: pf)
  then show ?thesis by (simp add: run_def Let_def print_def)
qed


text \<open>
  Claim C6. When the input file can be read, \<open>load_proxies\<close> returns its lines stripped
  of surrounding whitespace, without those that are blank after stripping, in file order,
  and records their number; every returned string is non-empty and neither begins nor
  ends with whitespace. When the file does not exist or reading fails otherwise,
  \<open>load_proxies\<close> raises \<^verbatim>\<open>SystemExit(1)\<close>, and the process ends with status 1
  having printed the banner and one diagnostic line and nothing else: no address was
  probed, both lists are still empty and no file has been written.
\<close>

theorem load_proxies_contract:
  "(open_read w (proxy_file self) = FileLines f \<longrightarrow>
      fst (load_proxies w self) = Return (filter (\<lambda>p. p \<noteq> []) (map strip f))
      \<and> (\<forall>p \<in> set (filter (\<lambda>p. p \<noteq> []) (map strip f)).
            p \<noteq> [] \<and> \<not> isspace (hd p) \<and> \<not> isspace (last p))
      \<and> total_proxies (snd (load_proxies w self)) = length (filter (\<lambda>p. p \<noteq> []) (map strip f)))
   \<and> (open_read w (proxy_file self) = FileNotFoundError \<or> open_read w (proxy_file self) = ReadException \<longrightarrow>
      fst (load_proxies w self) = Raise (SystemExit 1))
   \<and> (open_read w (arg_input_file a) = FileNotFoundError \<or> open_read w (arg_input_file a) = ReadException \<longrightarrow>
      main a w =
        (1, (init (arg_input_file a) (Some (arg_output a)) (arg_timeout a))
               \<lparr>stdout := [Rule, Title, Rule,
                   if open_read w (arg_input_file a) = FileNotFoundError
                   then FileNotFoundMsg (arg_input_file a) else ReadErrorMsg]\<rparr>))"
proof (intro conjI impI)
  assume lines: "open_read w (proxy_file self) = FileLines f"
  show "fst (load_proxies w self) = Return (filter (\<lambda>p. p \<noteq> []) (map strip f))"
    by (simp add: load_proxies_lines [OF lines])
  show "total_proxies (snd (load_proxies w self)) = length (filter (\<lambda>p. p \<noteq> []) (map strip f))"
    by (simp add: load_proxies_lines [OF lines])
  show "\<forall>p \<in> set (filter (\<lambda>p. p \<noteq> []) (map strip f)).
            p \<noteq> [] \<and> \<not> isspace (hd p) \<and> \<not> isspace (last p)"
    using strip_ends by auto
next
  assume "open_read w (proxy_file self) = FileNotFoundError \<or> open_read w (proxy_file self) = ReadException"
  then show "fst (load_proxies w self) = Raise (SystemExit 1)"
    by (simp add: load_proxies_fails)
next
  let ?c = "init (arg_input_file a) (Some (arg_output a)) (arg_timeout a)"
  assume "open_read w (arg_input_file a) = FileNotFoundError \<or> open_read w (arg_input_file a) = ReadException"
  then have "open_read w (proxy_file ?c) = FileNotFoundError \<or> open_read w (proxy_file ?c) = ReadException"
    by (simp add: init_def)
  then have "run \<lparr>TEST_URL = arg_url a, MAX_WORKERS = arg_workers a\<rparr> w ?c =
    (Raise (SystemExit 1),
     ?c\<lparr>stdout := stdout ?c @
        [Rule, Title, Rule,
         if open_read w (proxy_file ?c) = FileNotFoundError then FileNotFoundMsg (proxy_file ?c) else ReadErrorMsg]\<rparr>)"
    by (rule run_load_fails)
  then show "main a w =
        (1, ?c\<lparr>stdout := [Rule, Title, Rule,
                   if open_read w (arg_input_file a) = FileNotFoundError
                   then FileNotFoundMsg (arg_input_file a) else ReadErrorMsg]\<rparr>)"
    by (simp add: main_def init_def)
qed

theorem load_proxies_contract_witness:
  "fst (load_proxies
      \<lparr>open_read = (\<lambda>p. FileLines [py '' 1.2.3.4:8080  '' @ [10], [10], py ''badhost:9999'' @ [13, 10]]),
       probes = (\<lambda>i. \<lparr>clock_before = 0, requests_get = (\<lambda>r. Raises ProxyError), clock_after = 0\<rparr>),
       completion = [], batch_clock_start = 0, batch_clock_end = 1, open_write = (\<lambda>p. WriteOk)\<rparr>
      (init (py ''proxies.txt'') None 10))
     = Return [py ''1.2.3.4:8080'', py ''badhost:9999'']
   \<and> fst (load_proxies
      \<lparr>open_read = (\<lambda>p. FileNotFoundError),
       probes = (\<lambda>i. \<lparr>clock_before = 0, requests_get = (\<lambda>r. Raises ProxyError), clock_after = 0\<rparr>),
       completion = [], batch_clock_start = 0, batch_clock_end = 1, open_write = (\<lambda>p. WriteOk)\<rparr>
      (init (py ''proxies.txt'') None 10))
     = Raise (SystemExit 1)
   \<and> fst (main \<lparr>arg_input_file = py ''missing.txt'', arg_output = py ''working_proxies.txt'',
                 arg_timeout = 10, arg_workers = 50, arg_url = py ''http://www.google.com''\<rparr>
      \<lparr>open_read = (\<lambda>p. FileNotFoundError),
       probes = (\<lambda>i. \<lparr>clock_before = 0, requests_get = (\<lambda>r. Raises ProxyError), clock_after = 0\<rparr>),
       completion = [], batch_clock_start = 0, batch_clock_end = 1, open_write = (\<lambda>p. WriteOk)\<rparr>) = 1"
proof -
  let ?f = "[py '' 1.2.3.4:8080  '' @ [10], [10], py ''badhost:9999'' @ [13, 10]]"
  let ?pw = "\<lambda>i::nat. \<lparr>clock_before = 0, requests_get = (\<lambda>r. Raises ProxyError), clock_after = 0\<rparr>"
  let ?w = "\<lparr>open_read = (\<lambda>p. FileLines ?f), probes = ?pw,
       completion = [], batch_clock_start = 0, batch_clock_end = 1, open_write = (\<lambda>p. WriteOk)\<rparr>"
  let ?v = "\<lparr>open_read = (\<lambda>p. FileNotFoundError), probes = ?pw,
       completion = [], batch_clock_start = 0, batch_clock_end = 1, open_write = (\<lambda>p. WriteOk)\<rparr>"
  let ?a = "\<lparr>arg_input_file = py ''missing.txt'', arg_output = py ''working_proxies.txt'',
                 arg_timeout = 10, arg_workers = 50, arg_url = py ''http://www.google.com''\<rparr>"
  let ?self = "init (py ''proxies.txt'') None 10"
  have strips: "filter (\<lambda>p. p \<noteq> []) (map strip ?f) = [py ''1.2.3.4:8080'', py ''badhost:9999'']"
    by (simp add: strip_def lstrip_def rstrip_def isspace_def py_def)
  have lines: "open_read ?w (proxy_file ?self) = FileLines ?f"
    by simp
  have missing: "open_read ?v (arg_input_file ?a) = FileNotFoundError \<or> open_read ?v (arg_input_file ?a) = ReadException"
    by simp
  note A = load_proxies_contract [of ?w ?self ?f ?a, THEN conjunct1, THEN mp, OF lines, THEN conjunct1]
  note B = load_proxies_contract [of ?v ?self ?f ?a, THEN conjunct2, THEN conjunct2, THEN mp, OF missing]
  have gone: "open_read ?v (proxy_file ?self) = FileNotFoundError \<or> open_read ?v (proxy_file ?self) = ReadException"
    by simp
  note C = load_proxies_contract [of ?v ?self ?f ?a, THEN conjunct2, THEN conjunct1, THEN mp, OF gone]
  from A have 1: "fst (load_proxies ?w ?self) = Return [py ''1.2.3.4:8080'', py ''badhost:9999'']"
    by (simp only: strips)
  from B have 2: "fst (main ?a ?v) = 1"
    by (simp only: fst_conv)
  from 1 C 2 show ?thesis by (intro conjI)
qed

section \<open>Properties of the dispatcher\<close>

lemma check_proxy_fst: "fst (check_proxy g self w proxy) = proxy"
  by (simp add: check_proxy_def Let_def split: get_outcome.splits req_exception.splits)

lemma submit_all_fst: "map fst (submit_all g self pw proxies) = proxies"
proof -
  have "fst \<circ> (\<lambda>(i, proxy). check_proxy g self (pw i) proxy) = snd"
    by (auto simp add: check_proxy_fst)
  then show ?thesis by (simp add: submit_all_def)
qed

lemma submit_all_timeout:
  "timeout self' = timeout self \<Longrightarrow> submit_all g self' pw proxies = submit_all g self pw proxies"
  by (simp add: submit_all_def check_proxy_def probe_request_def)


lemma collect_lists:
  "working_proxies (snd (collect fs c self)) = working_proxies self @ map fst (filter (\<lambda>r. fst (snd r)) fs)
   \<and> failed_proxies (snd (collect fs c self)) = failed_proxies self @ map fst (filter (\<lambda>r. \<not> fst (snd r)) fs)"
  by (induction fs c self rule: collect.induct) (simp_all add: print_def Let_def)

lemma collect_frame:
  "total_proxies (snd (collect fs c self)) = total_proxies self
   \<and> files (snd (collect fs c self)) = files self
   \<and> output_file (snd (collect fs c self)) = output_file self
   \<and> proxy_file (snd (collect fs c self)) = proxy_file self
   \<and> timeout (snd (collect fs c self)) = timeout self"
  by (induction fs c self rule: collect.induct) (simp_all add: print_def Let_def)

lemma collect_checked: "fst (collect fs c self) = c + length fs"
  by (induction fs c self rule: collect.induct) (simp_all add: Let_def)

lemma collect_summary:
  "filter is_summary_line (stdout (snd (collect fs c self))) = filter is_summary_line (stdout self)"
  by (induction fs c self rule: collect.induct) (simp_all add: print_def Let_def)

lemma check_all_proxies_outcome:
  "fst (check_all_proxies g w proxies self) =
     (if MAX_WORKERS g \<le> 0 then Raise ValueError
      else if total_proxies self = 0 then Raise ZeroDivisionError
      else Return ())"
  by (simp add: check_all_proxies_def Let_def case_prod_unfold print_def collect_frame)

lemma check_all_proxies_frame:
  "total_proxies (snd (check_all_proxies g w proxies self)) = total_proxies self
   \<and> files (snd (check_all_proxies g w proxies self)) = files self
   \<and> output_file (snd (check_all_proxies g w proxies self)) = output_file self"
  by (simp add: check_all_proxies_def Let_def case_prod_unfold print_def collect_frame)

lemma check_all_proxies_lists:
  assumes "0 < MAX_WORKERS g"
  shows "working_proxies (snd (check_all_proxies g w proxies self)) =
           working_proxies self @ map fst (filter (\<lambda>r. fst (snd r)) (completed g w self proxies))
       \<and> failed_proxies (snd (check_all_proxies g w proxies self)) =
           failed_proxies self @ map fst (filter (\<lambda>r. \<not> fst (snd r)) (completed g w self proxies))"
proof -
  let ?s = "print (TimeoutMsg (timeout self)) (print (TestUrlMsg (TEST_URL g)) (print (StartMsg (MAX_WORKERS g)) self))"
  have "submit_all g ?s (probes w) proxies = submit_all g self (probes w) proxies"
    by (rule submit_all_timeout) (simp add: print_def)
  then show ?thesis
    using assms
    by (simp add: check_all_proxies_def Let_def case_prod_unfold print_def collect_frame collect_lists completed_def)
qed

lemma check_all_proxies_no_pool:
  assumes "MAX_WORKERS g \<le> 0"
  shows "working_proxies (snd (check_all_proxies g w proxies self)) = working_proxies self
       \<and> failed_proxies (snd (check_all_proxies g w proxies self)) = failed_proxies self"
  using assms by (simp add: check_all_proxies_def Let_def print_def)

text \<open>The completion order is a rearrangement of the submitted futures: none is lost and
  none is yielded twice, whatever the schedule.\<close>

lemma mset_without_nth:
  "i < length xs \<Longrightarrow> add_mset (xs ! i) (mset (take i xs @ drop (Suc i) xs)) = mset xs"
proof -
  assume "i < length xs"
  then have "xs = take i xs @ xs ! i # drop (Suc i) xs"
    by (rule id_take_nth_drop)
  then have "mset xs = mset (take i xs @ xs ! i # drop (Suc i) xs)"
    by simp
  then show ?thesis
    by (simp only: mset_append mset.simps union_mset_add_mset_right)
qed

lemma as_completed_mset: "mset (as_completed sched fs) = mset fs"
proof (induction sched fs rule: as_completed.induct)
  case (1 sched)
  then show ?case by simp
next
  case (2 sched f fs)
  let ?i = "case sched of [] \<Rightarrow> 0 | c # _ \<Rightarrow> c mod length (f # fs)"
  let ?rest = "take ?i (f # fs) @ drop (Suc ?i) (f # fs)"
  have i: "?i < length (f # fs)"
    by (simp split: list.splits)
  have IH: "mset (as_completed (tl sched) ?rest) = mset ?rest"
    by (rule 2 [OF refl refl])
  have "as_completed sched (f # fs) = (f # fs) ! ?i # as_completed (tl sched) ?rest"
    by (simp only: as_completed.simps Let_def)
  then have "mset (as_completed sched (f # fs)) = add_mset ((f # fs) ! ?i) (mset ?rest)"
    by (simp only: mset.simps IH)
  also have "\<dots> = mset (f # fs)"
    by (rule mset_without_nth [OF i])
  finally show ?case .
qed

text \<open>Conversely, every rearrangement of the submitted futures is the completion order
  under some schedule: the model leaves the order as open as the thread pool does.\<close>

lemma as_completed_pick:
  assumes "i < length fs"
  shows "as_completed (i # sched) fs = fs ! i # as_completed sched (take i fs @ drop (Suc i) fs)"
proof (cases fs)
  case Nil
  with assms show ?thesis by simp
next
  case (Cons f fs')
  with assms have "i mod length (f # fs') = i" by simp
  then show ?thesis
    unfolding Cons by (simp only: as_completed.simps Let_def list.case list.sel)
qed

lemma as_completed_any_order:
  "mset ys = mset fs \<Longrightarrow> \<exists>sched. as_completed sched fs = ys"
proof (induction ys arbitrary: fs)
  case Nil
  then show ?case by simp
next
  case (Cons y ys)
  then have "y \<in> set fs"
    by (metis list.set_intros(1) set_mset_mset)
  then obtain i where i: "i < length fs" and y: "fs ! i = y"
    by (auto simp add: in_set_conv_nth)
  let ?rest = "take i fs @ drop (Suc i) fs"
  have "add_mset (fs ! i) (mset ?rest) = mset fs"
    by (rule mset_without_nth [OF i])
  with Cons.prems y have "add_mset y (mset ys) = add_mset y (mset ?rest)"
    by simp
  then have "mset ys = mset ?rest"
    by (simp only: add_mset_add_mset_same_iff)
  then obtain sched where "as_completed sched ?rest = ys"
    using Cons.IH by blast
  then have "as_completed (i # sched) fs = y # ys"
    by (simp only: as_completed_pick [OF i] y)
  then show ?case by blast
qed

lemma completed_mset: "mset (completed g w self proxies) = mset (submit_all g self (probes w) proxies)"
  by (simp only: completed_def as_completed_mset)

lemma completed_length: "length (completed g w self proxies) = length proxies"
proof -
  have "size (mset (completed g w self proxies)) = size (mset (submit_all g self (probes w) proxies))"
    by (simp only: completed_mset)
  then have "length (completed g w self proxies) = length (map fst (submit_all g self (probes w) proxies))"
    by simp
  then show ?thesis by (simp only: submit_all_fst)
qed


lemma completed_timeout:
  assumes "timeout self' = timeout self"
  shows "completed g w self' proxies = completed g w self proxies"
proof -
  have "submit_all g self' (probes w) proxies = submit_all g self (probes w) proxies"
    using assms by (rule submit_all_timeout)
  then show ?thesis by (simp only: completed_def)
qed

lemma completed_Nil: "completed g w self [] = []"
  by (simp add: completed_def submit_all_def)

lemma partition_length:
  "length (filter (\<lambda>r. fst (snd r)) rs) + length (filter (\<lambda>r. \<not> fst (snd r)) rs) = length rs"
  by (induction rs) simp_all

section \<open>Properties of the reporter and of the pipeline\<close>

lemma save_working_proxies_outcome: "fst (save_working_proxies w self) = Return ()"
  by (simp add: save_working_proxies_def split: write_outcome.splits)

lemma save_working_proxies_frame:
  "working_proxies (snd (save_working_proxies w self)) = working_proxies self
   \<and> failed_proxies (snd (save_working_proxies w self)) = failed_proxies self
   \<and> total_proxies (snd (save_working_proxies w self)) = total_proxies self
   \<and> output_file (snd (save_working_proxies w self)) = output_file self"
  by (simp add: save_working_proxies_def print_def split: write_outcome.splits)

lemma save_working_proxies_files:
  "files (snd (save_working_proxies w self)) =
     (if working_proxies self = [] then files self
      else case open_write w (output_file self) of
             WriteOk \<Rightarrow> (files self)(output_file self \<mapsto> file_text (working_proxies self))
           | OpenFails \<Rightarrow> files self
           | WriteFailsAt k \<Rightarrow> (files self)(output_file self \<mapsto> file_text (take k (working_proxies self))))"
  by (simp add: save_working_proxies_def print_def split: write_outcome.splits)

lemma save_working_proxies_summary:
  "filter is_summary_line (stdout (snd (save_working_proxies w self))) = filter is_summary_line (stdout self)"
  by (simp add: save_working_proxies_def print_def split: write_outcome.splits)

lemma run_lines_explicit:
  assumes "open_read w (proxy_file self) = FileLines f"
  shows "run g w self =
     (let ps = filter (\<lambda>p. p \<noteq> []) (map strip f) in
      if ps = [] then (Return (), print NoProxiesMsg (loaded_state self ps))
      else if fst (check_all_proxies g w ps (loaded_state self ps)) = Return ()
      then save_working_proxies w (snd (check_all_proxies g w ps (loaded_state self ps)))
      else check_all_proxies g w ps (loaded_state self ps))"
proof -
  let ?s = "print Rule (print Title (print Rule self))"
  let ?ps = "filter (\<lambda>p. p \<noteq> []) (map strip f)"
  have "open_read w (proxy_file ?s) = FileLines f"
    using assms by (simp add: print_def)
  then have load: "load_proxies w ?s = (Return ?ps,
     ?s\<lparr>total_proxies := length ?ps, stdout := stdout ?s @ [Loaded (length ?ps) (proxy_file ?s)]\<rparr>)"
    by (rule load_proxies_lines)
  have st: "?s\<lparr>total_proxies := length ?ps, stdout := stdout ?s @ [Loaded (length ?ps) (proxy_file ?s)]\<rparr>
      = loaded_state self ?ps"
    by (simp add: loaded_state_def print_def)
  obtain r s where rs: "check_all_proxies g w ?ps (loaded_state self ?ps) = (r, s)"
    by (cases "check_all_proxies g w ?ps (loaded_state self ?ps)")
  show ?thesis
    unfolding run_def Let_def load st
    by (cases r) (simp_all add: rs)
qed


lemma run_lines:
  assumes "open_read w (proxy_file self) = FileLines f"
  shows "run g w self =
     (if nonblank_lines f = [] then (Return (), print NoProxiesMsg (loaded_state self (nonblank_lines f)))
      else if fst (check_all_proxies g w (nonblank_lines f) (loaded_state self (nonblank_lines f))) = Return ()
      then save_working_proxies w (snd (check_all_proxies g w (nonblank_lines f) (loaded_state self (nonblank_lines f))))
      else check_all_proxies g w (nonblank_lines f) (loaded_state self (nonblank_lines f)))"
  unfolding nonblank_lines_def using run_lines_explicit [OF assms] by (simp only: Let_def)

lemma loaded_state_fields:
  "working_proxies (loaded_state self ps) = working_proxies self"
  "failed_proxies (loaded_state self ps) = failed_proxies self"
  "total_proxies (loaded_state self ps) = length ps"
  "timeout (loaded_state self ps) = timeout self"
  "files (loaded_state self ps) = files self"
  "output_file (loaded_state self ps) = output_file self"
  by (simp_all add: loaded_state_def)

lemma run_checked:
  assumes "open_read w (proxy_file self) = FileLines f" and "0 < MAX_WORKERS g"
    and "nonblank_lines f \<noteq> []"
  shows "run g w self =
    save_working_proxies w
      (snd (check_all_proxies g w (nonblank_lines f)
         (loaded_state self (nonblank_lines f))))"
proof -
  let ?ps = "nonblank_lines f"
  have "fst (check_all_proxies g w ?ps (loaded_state self ?ps)) = Return ()"
    using assms(2,3) by (simp add: check_all_proxies_outcome loaded_state_fields)
  then show ?thesis
    using assms(3) by (simp add: run_lines [OF assms(1)] Let_def)
qed

lemma run_lists:
  assumes "open_read w (proxy_file self) = FileLines f" and "0 < MAX_WORKERS g"
  shows "working_proxies (snd (run g w self)) =
           working_proxies self @ map fst (filter (\<lambda>r. fst (snd r))
             (completed g w self (nonblank_lines f)))"
    and "failed_proxies (snd (run g w self)) =
           failed_proxies self @ map fst (filter (\<lambda>r. \<not> fst (snd r))
             (completed g w self (nonblank_lines f)))"
    and "total_proxies (snd (run g w self)) = length (nonblank_lines f)"
    and "fst (run g w self) = Return ()"
proof -
  let ?ps = "nonblank_lines f"
  let ?l = "loaded_state self ?ps"
  have c: "completed g w ?l ?ps = completed g w self ?ps"
    by (rule completed_timeout) (simp add: loaded_state_fields)
  show "working_proxies (snd (run g w self)) =
           working_proxies self @ map fst (filter (\<lambda>r. fst (snd r)) (completed g w self ?ps))"
  proof (cases "?ps = []")
    case True
    then show ?thesis
      by (simp add: run_lines [OF assms(1)] completed_Nil print_def loaded_state_fields)
  next
    case False
    show ?thesis
      by (simp only: run_checked [OF assms False] save_working_proxies_frame
          check_all_proxies_lists [OF assms(2)] loaded_state_fields c)
  qed
  show "failed_proxies (snd (run g w self)) =
           failed_proxies self @ map fst (filter (\<lambda>r. \<not> fst (snd r)) (completed g w self ?ps))"
  proof (cases "?ps = []")
    case True
    then show ?thesis
      by (simp add: run_lines [OF assms(1)] completed_Nil print_def loaded_state_fields)
  next
    case False
    show ?thesis
      by (simp only: run_checked [OF assms False] save_working_proxies_frame
          check_all_proxies_lists [OF assms(2)] loaded_state_fields c)
  qed
  show "total_proxies (snd (run g w self)) = length ?ps"
  proof (cases "?ps = []")
    case True
    then show ?thesis
      by (simp add: run_lines [OF assms(1)] print_def loaded_state_fields)
  next
    case False
    show ?thesis
      by (simp only: run_checked [OF assms False] save_working_proxies_frame
          check_all_proxies_frame loaded_state_fields)
  qed
  show "fst (run g w self) = Return ()"
  proof (cases "?ps = []")
    case True
    then show ?thesis
      by (simp add: run_lines [OF assms(1)])
  next
    case False
    show ?thesis
      by (simp only: run_checked [OF assms False] save_working_proxies_outcome)
  qed
qed

lemma run_no_pool:
  assumes "open_read w (proxy_file self) = FileLines f" and "MAX_WORKERS g \<le> 0"
  shows "working_proxies (snd (run g w self)) = working_proxies self"
    and "failed_proxies (snd (run g w self)) = failed_proxies self"
    and "files (snd (run g w self)) = files self"
    and "output_file (snd (run g w self)) = output_file self"
    and "fst (run g w self) \<noteq> Raise ZeroDivisionError"
    and "filter is_summary_line (stdout (snd (run g w self))) = filter is_summary_line (stdout self)"
  using assms(2)
  by (simp_all add: run_lines [OF assms(1)] Let_def check_all_proxies_outcome
      check_all_proxies_no_pool check_all_proxies_frame loaded_state_fields print_def
      check_all_proxies_def loaded_state_def)


lemma check_all_proxies_unfold:
  fixes g :: globals and w :: world and proxies :: "pystr list" and self :: state
  assumes "0 < MAX_WORKERS g"
  defines "s1 \<equiv> print (TimeoutMsg (timeout self)) (print (TestUrlMsg (TEST_URL g)) (print (StartMsg (MAX_WORKERS g)) self))"
  defines "s2 \<equiv> snd (collect (as_completed (completion w) (submit_all g s1 (probes w) proxies)) 0 s1)"
  defines "s3 \<equiv> print (FailedCountMsg (length (failed_proxies s2)) (total_proxies s2))
                   (print (WorkingCountMsg (length (working_proxies s2)) (total_proxies s2))
                     (print (CompletedMsg (batch_clock_end w - batch_clock_start w)) (print Rule s2)))"
  shows "snd (check_all_proxies g w proxies self) =
     (if total_proxies s2 = 0 then s3
      else print Rule (print (SuccessRateMsg (length (working_proxies s2)) (total_proxies s2)) s3))"
proof -
  have f: "working_proxies (print l s) = working_proxies s" "failed_proxies (print l s) = failed_proxies s"
    "total_proxies (print l s) = total_proxies s" "timeout (print l s) = timeout s" for l s
    by (simp_all add: print_def)
  have "\<not> MAX_WORKERS g \<le> 0" using assms(1) by simp
  then show ?thesis
    unfolding check_all_proxies_def Let_def case_prod_unfold s3_def s2_def s1_def
    by (simp add: f)
qed


lemma print_fields:
  "working_proxies (print l s) = working_proxies s"
  "failed_proxies (print l s) = failed_proxies s"
  "total_proxies (print l s) = total_proxies s"
  "timeout (print l s) = timeout s"
  "files (print l s) = files s"
  "output_file (print l s) = output_file s"
  "proxy_file (print l s) = proxy_file s"
  "stdout (print l s) = stdout s @ [l]"
  by (simp_all add: print_def)

lemma check_all_proxies_summary:
  "filter is_summary_line (stdout (snd (check_all_proxies g w proxies self))) =
     filter is_summary_line (stdout self) @
     (if MAX_WORKERS g \<le> 0 then []
      else [CompletedMsg (batch_clock_end w - batch_clock_start w),
            WorkingCountMsg (length (working_proxies (snd (check_all_proxies g w proxies self)))) (total_proxies self),
            FailedCountMsg (length (failed_proxies (snd (check_all_proxies g w proxies self)))) (total_proxies self)]
           @ (if total_proxies self = 0 then []
              else [SuccessRateMsg (length (working_proxies (snd (check_all_proxies g w proxies self)))) (total_proxies self)]))"
proof (cases "MAX_WORKERS g \<le> 0")
  case True
  then have "snd (check_all_proxies g w proxies self) =
      print (TimeoutMsg (timeout self)) (print (TestUrlMsg (TEST_URL g)) (print (StartMsg (MAX_WORKERS g)) self))"
    by (simp add: check_all_proxies_def Let_def print_fields)
  then show ?thesis using True by (simp add: print_fields)
next
  case False
  then have pos: "0 < MAX_WORKERS g" by simp
  let ?s1 = "print (TimeoutMsg (timeout self)) (print (TestUrlMsg (TEST_URL g)) (print (StartMsg (MAX_WORKERS g)) self))"
  let ?s2 = "snd (collect (as_completed (completion w) (submit_all g ?s1 (probes w) proxies)) 0 ?s1)"
  have tot: "total_proxies ?s2 = total_proxies self"
    by (simp add: collect_frame print_fields)
  have out: "filter is_summary_line (stdout ?s2) = filter is_summary_line (stdout self)"
    by (simp add: collect_summary print_fields)
  show ?thesis
    using False
    by (simp add: check_all_proxies_unfold [OF pos] print_fields tot out)
qed


lemma loaded_state_summary:
  "filter is_summary_line (stdout (loaded_state self ps)) = filter is_summary_line (stdout self)"
  by (simp add: loaded_state_def)

lemma run_summary:
  assumes "open_read w (proxy_file self) = FileLines f" and "0 < MAX_WORKERS g"
  shows "filter is_summary_line (stdout (snd (run g w self))) =
     filter is_summary_line (stdout self) @
     (if nonblank_lines f = [] then []
      else [CompletedMsg (batch_clock_end w - batch_clock_start w),
            WorkingCountMsg (length (working_proxies (snd (run g w self)))) (length (nonblank_lines f)),
            FailedCountMsg (length (failed_proxies (snd (run g w self)))) (length (nonblank_lines f)),
            SuccessRateMsg (length (working_proxies (snd (run g w self)))) (length (nonblank_lines f))])"
proof (cases "nonblank_lines f = []")
  case True
  then show ?thesis
    by (simp add: run_lines [OF assms(1)] print_def loaded_state_summary)
next
  case False
  then have pos: "length (nonblank_lines f) \<noteq> 0" by simp
  show ?thesis
    using assms(2) False pos
    by (simp only: run_checked [OF assms False] save_working_proxies_summary
        save_working_proxies_frame check_all_proxies_summary loaded_state_summary
        loaded_state_fields) simp
qed

lemma run_output_file: "output_file (snd (run g w self)) = output_file self"
proof (cases "open_read w (proxy_file self)")
  case (FileLines f)
  show ?thesis
    by (simp add: run_lines [OF FileLines] print_def loaded_state_fields
        save_working_proxies_frame check_all_proxies_frame)
next
  case FileNotFoundError
  then show ?thesis by (simp add: run_load_fails)
next
  case ReadException
  then show ?thesis by (simp add: run_load_fails)
qed

lemma run_files:
  assumes "open_read w (proxy_file self) = FileLines f" and "0 < MAX_WORKERS g"
    and "working_proxies self = []"
  shows "files (snd (run g w self)) =
     (if working_proxies (snd (run g w self)) = [] then files self
      else case open_write w (output_file self) of
             WriteOk \<Rightarrow> (files self)(output_file self \<mapsto> file_text (working_proxies (snd (run g w self))))
           | OpenFails \<Rightarrow> files self
           | WriteFailsAt k \<Rightarrow>
               (files self)(output_file self \<mapsto> file_text (take k (working_proxies (snd (run g w self))))))"
proof (cases "nonblank_lines f = []")
  case True
  then show ?thesis
    using assms(3) by (simp add: run_lines [OF assms(1)] print_def loaded_state_fields)
next
  case False
  show ?thesis
    by (simp only: run_checked [OF assms(1,2) False] save_working_proxies_files
        save_working_proxies_frame check_all_proxies_frame loaded_state_fields)
qed

lemma run_no_pool_outcome:
  assumes "open_read w (proxy_file self) = FileLines f" and "MAX_WORKERS g \<le> 0"
    and "nonblank_lines f \<noteq> []"
  shows "fst (run g w self) = Raise ValueError"
    and "total_proxies (snd (run g w self)) = length (nonblank_lines f)"
  using assms(2,3)
  by (simp_all add: run_lines [OF assms(1)] check_all_proxies_outcome check_all_proxies_frame
      loaded_state_fields)

text \<open>
  Claim C1, amended. For every candidate list given to \<open>check_all_proxies\<close>, the
  probes return one result per list element, for exactly that address and in submission
  order, so none is dropped or duplicated, and the completion order is a rearrangement of
  these results. With a positive worker count the loop receives each result once and
  appends its address to \<open>working_proxies\<close> when it is Working and to
  \<open>failed_proxies\<close> otherwise, hence to exactly one of the two lists, and the two
  lists grow by the length of the candidate list together; afterwards their lengths add
  up to \<open>total_proxies\<close> exactly when the lengths before the call and the length of
  the list added up to it, as they do when \<open>run\<close> makes the call on a fresh checker:
  after such a run the equation holds. With a worker count of zero or less the pool is
  not created: \<open>check_all_proxies\<close> raises \<^verbatim>\<open>ValueError\<close>, no result is produced
  and both lists are left as they were.
\<close>

theorem check_all_proxies_exactly_once:
  "map fst (submit_all g self (probes w) proxies) = proxies
   \<and> mset (completed g w self proxies) = mset (submit_all g self (probes w) proxies)
   \<and> (0 < MAX_WORKERS g \<longrightarrow>
        working_proxies (snd (check_all_proxies g w proxies self)) =
          working_proxies self @ map fst (filter (\<lambda>r. fst (snd r)) (completed g w self proxies))
        \<and> failed_proxies (snd (check_all_proxies g w proxies self)) =
          failed_proxies self @ map fst (filter (\<lambda>r. \<not> fst (snd r)) (completed g w self proxies))
        \<and> length (working_proxies (snd (check_all_proxies g w proxies self)))
          + length (failed_proxies (snd (check_all_proxies g w proxies self)))
          = length (working_proxies self) + length (failed_proxies self) + length proxies
        \<and> (length (working_proxies (snd (check_all_proxies g w proxies self)))
            + length (failed_proxies (snd (check_all_proxies g w proxies self)))
            = total_proxies (snd (check_all_proxies g w proxies self))
           \<longleftrightarrow> length (working_proxies self) + length (failed_proxies self) + length proxies
               = total_proxies self)
        \<and> length (working_proxies (snd (run g w (init pf ofile t))))
          + length (failed_proxies (snd (run g w (init pf ofile t))))
          = total_proxies (snd (run g w (init pf ofile t))))
   \<and> (MAX_WORKERS g \<le> 0 \<longrightarrow>
        fst (check_all_proxies g w proxies self) = Raise ValueError
        \<and> working_proxies (snd (check_all_proxies g w proxies self)) = working_proxies self
        \<and> failed_proxies (snd (check_all_proxies g w proxies self)) = failed_proxies self)"
proof (intro conjI impI)
  show "map fst (submit_all g self (probes w) proxies) = proxies"
    by (rule submit_all_fst)
  show "mset (completed g w self proxies) = mset (submit_all g self (probes w) proxies)"
    by (rule completed_mset)
next
  assume pos: "0 < MAX_WORKERS g"
  show wk: "working_proxies (snd (check_all_proxies g w proxies self)) =
        working_proxies self @ map fst (filter (\<lambda>r. fst (snd r)) (completed g w self proxies))"
    using check_all_proxies_lists [OF pos] by simp
  show fl: "failed_proxies (snd (check_all_proxies g w proxies self)) =
        failed_proxies self @ map fst (filter (\<lambda>r. \<not> fst (snd r)) (completed g w self proxies))"
    using check_all_proxies_lists [OF pos] by simp
  show sum: "length (working_proxies (snd (check_all_proxies g w proxies self)))
        + length (failed_proxies (snd (check_all_proxies g w proxies self)))
        = length (working_proxies self) + length (failed_proxies self) + length proxies"
    using partition_length [of "completed g w self proxies"]
    by (simp add: wk fl completed_length)
  show "length (working_proxies (snd (check_all_proxies g w proxies self)))
            + length (failed_proxies (snd (check_all_proxies g w proxies self)))
            = total_proxies (snd (check_all_proxies g w proxies self))
           \<longleftrightarrow> length (working_proxies self) + length (failed_proxies self) + length proxies
               = total_proxies self"
    by (simp only: sum check_all_proxies_frame)
  show "length (working_proxies (snd (run g w (init pf ofile t))))
        + length (failed_proxies (snd (run g w (init pf ofile t))))
        = total_proxies (snd (run g w (init pf ofile t)))"
  proof (cases "open_read w (proxy_file (init pf ofile t))")
    case (FileLines f)
    show ?thesis
      using partition_length [of "completed g w (init pf ofile t) (nonblank_lines f)"]
      by (simp add: run_lists [OF FileLines pos] completed_length) (simp add: init_def)
  next
    case FileNotFoundError
    then show ?thesis by (simp add: run_load_fails) (simp add: init_def)
  next
    case ReadException
    then show ?thesis by (simp add: run_load_fails) (simp add: init_def)
  qed
next
  assume none: "MAX_WORKERS g \<le> 0"
  then show "fst (check_all_proxies g w proxies self) = Raise ValueError"
    by (simp add: check_all_proxies_outcome)
  show "working_proxies (snd (check_all_proxies g w proxies self)) = working_proxies self"
    using check_all_proxies_no_pool [OF none] by simp
  show "failed_proxies (snd (check_all_proxies g w proxies self)) = failed_proxies self"
    using check_all_proxies_no_pool [OF none] by simp
qed

section \<open>The example runs, evaluated\<close>

lemma init_fields:
  "proxy_file (init pf ofile t) = pf"
  "timeout (init pf ofile t) = t"
  "working_proxies (init pf ofile t) = []"
  "failed_proxies (init pf ofile t) = []"
  "total_proxies (init pf ofile t) = 0"
  "stdout (init pf ofile t) = []"
  "files (init pf ofile t) = Map.empty"
  by (simp_all add: init_def)

lemma example_checker_fields:
  "proxy_file example_checker = py ''proxies.txt''"
  "output_file example_checker = py ''working_proxies.txt''"
  "timeout example_checker = 10"
  "working_proxies example_checker = []"
  "failed_proxies example_checker = []"
  "total_proxies example_checker = 0"
  "stdout example_checker = []"
  "files example_checker = Map.empty"
  by (simp_all add: example_checker_def init_def TIMEOUT_def)

lemma mixed_world_fields:
  "open_read mixed_world p = FileLines mixed_file"
  "open_write mixed_world p = WriteOk"
  "batch_clock_start mixed_world = 0"
  "batch_clock_end mixed_world = 4"
  by (simp_all add: mixed_world_def)

lemma mixed_nonblank: "nonblank_lines mixed_file = [py ''1.2.3.4:8080'', py ''badhost:9999'']"
  by (simp add: nonblank_lines_def mixed_file_def strip_def lstrip_def rstrip_def isspace_def py_def)

lemma mixed_completed:
  "completed default_globals mixed_world example_checker [py ''1.2.3.4:8080'', py ''badhost:9999'']
   = [(py ''badhost:9999'', False, 0), (py ''1.2.3.4:8080'', True, 2)]"
  by (simp add: completed_def submit_all_def mixed_world_def check_proxy_def enumerate_simps Let_def)

lemma blank_nonblank: "nonblank_lines [[32, 10], [10]] = []"
  by (simp add: nonblank_lines_def strip_def lstrip_def rstrip_def isspace_def)

lemma read_lines_line:
  "10 \<notin> set p \<Longrightarrow> read_lines acc (p @ 10 # rest) = (acc @ p) # read_lines [] rest"
  by (induction p arbitrary: acc) auto

lemma read_lines_file_text:
  "\<forall>p \<in> set ps. 10 \<notin> set p \<Longrightarrow> read_lines [] (file_text ps) = ps"
  by (induction ps) (simp_all add: file_text_def read_lines_line)


theorem check_all_proxies_exactly_once_witness:
  "working_proxies (snd (check_all_proxies default_globals mixed_world
       [py ''1.2.3.4:8080'', py ''badhost:9999'']
       (loaded_state example_checker [py ''1.2.3.4:8080'', py ''badhost:9999'']))) = [py ''1.2.3.4:8080'']
   \<and> failed_proxies (snd (check_all_proxies default_globals mixed_world
       [py ''1.2.3.4:8080'', py ''badhost:9999'']
       (loaded_state example_checker [py ''1.2.3.4:8080'', py ''badhost:9999'']))) = [py ''badhost:9999'']
   \<and> total_proxies (snd (check_all_proxies default_globals mixed_world
       [py ''1.2.3.4:8080'', py ''badhost:9999'']
       (loaded_state example_checker [py ''1.2.3.4:8080'', py ''badhost:9999'']))) = 2
   \<and> length (working_proxies (snd (run default_globals mixed_world example_checker)))
       + length (failed_proxies (snd (run default_globals mixed_world example_checker)))
       = total_proxies (snd (run default_globals mixed_world example_checker))
   \<and> fst (check_all_proxies zero_workers mixed_world
       [py ''1.2.3.4:8080'', py ''badhost:9999'']
       (loaded_state example_checker [py ''1.2.3.4:8080'', py ''badhost:9999''])) = Raise ValueError"
proof -
  let ?ps = "[py ''1.2.3.4:8080'', py ''badhost:9999'']"
  let ?l = "loaded_state example_checker ?ps"
  have pos: "0 < MAX_WORKERS default_globals"
    by (simp add: default_globals_def)
  have none: "MAX_WORKERS zero_workers \<le> 0"
    by (simp add: zero_workers_def)
  have c: "completed default_globals mixed_world ?l ?ps
      = [(py ''badhost:9999'', False, 0), (py ''1.2.3.4:8080'', True, 2)]"
    using completed_timeout [of ?l example_checker default_globals mixed_world ?ps]
    by (simp add: loaded_state_fields mixed_completed)
  have before: "length (working_proxies ?l) + length (failed_proxies ?l) + length ?ps = total_proxies ?l"
    by (simp add: loaded_state_fields example_checker_fields)
  note inst = check_all_proxies_exactly_once [of default_globals ?l mixed_world ?ps
      "py ''proxies.txt''" None TIMEOUT, folded example_checker_def,
      THEN conjunct2, THEN conjunct2, THEN conjunct1, THEN mp, OF pos]
  note zero = check_all_proxies_exactly_once [of zero_workers ?l mixed_world ?ps
      "py ''proxies.txt''" None TIMEOUT,
      THEN conjunct2, THEN conjunct2, THEN conjunct2, THEN mp, OF none]
  from inst have 1: "working_proxies (snd (check_all_proxies default_globals mixed_world ?ps ?l)) = [py ''1.2.3.4:8080'']"
    by (simp add: c loaded_state_fields example_checker_fields)
  from inst have 2: "failed_proxies (snd (check_all_proxies default_globals mixed_world ?ps ?l)) = [py ''badhost:9999'']"
    by (simp add: c loaded_state_fields example_checker_fields)
  from inst before have "length (working_proxies (snd (check_all_proxies default_globals mixed_world ?ps ?l)))
      + length (failed_proxies (snd (check_all_proxies default_globals mixed_world ?ps ?l)))
      = total_proxies (snd (check_all_proxies default_globals mixed_world ?ps ?l))"
    by blast
  then have 3: "total_proxies (snd (check_all_proxies default_globals mixed_world ?ps ?l)) = 2"
    by (simp add: 1 2)
  from inst have 4: "length (working_proxies (snd (run default_globals mixed_world example_checker)))
       + length (failed_proxies (snd (run default_globals mixed_world example_checker)))
       = total_proxies (snd (run default_globals mixed_world example_checker))"
    by blast
  from zero have 5: "fst (check_all_proxies zero_workers mixed_world ?ps ?l) = Raise ValueError"
    by blast
  from 1 2 3 4 5 show ?thesis by (intro conjI)
qed

text \<open>
  Claim C1, as stated, does not hold. With \<^verbatim>\<open>-w 0\<close> and the file of two addresses,
  the run ends in \<^verbatim>\<open>ValueError\<close> when the pool is created: two addresses are
  loaded, none gets a result, and the two lists are empty while \<open>total_proxies\<close> is
  2. And \<open>check_all_proxies\<close> called on a checker that has not loaded the list
  appends two results while \<open>total_proxies\<close> is still 0 (and then raises at the
  success rate).
\<close>

theorem check_all_proxies_exactly_once_counterexample:
  "fst (run zero_workers mixed_world example_checker) = Raise ValueError
   \<and> working_proxies (snd (run zero_workers mixed_world example_checker)) = []
   \<and> failed_proxies (snd (run zero_workers mixed_world example_checker)) = []
   \<and> total_proxies (snd (run zero_workers mixed_world example_checker)) = 2
   \<and> length (working_proxies (snd (run zero_workers mixed_world example_checker)))
       + length (failed_proxies (snd (run zero_workers mixed_world example_checker)))
       \<noteq> total_proxies (snd (run zero_workers mixed_world example_checker))
   \<and> fst (check_all_proxies default_globals mixed_world
         [py ''1.2.3.4:8080'', py ''badhost:9999''] example_checker) = Raise ZeroDivisionError
   \<and> length (working_proxies (snd (check_all_proxies default_globals mixed_world
         [py ''1.2.3.4:8080'', py ''badhost:9999''] example_checker)))
       + length (failed_proxies (snd (check_all_proxies default_globals mixed_world
         [py ''1.2.3.4:8080'', py ''badhost:9999''] example_checker)))
       \<noteq> total_proxies (snd (check_all_proxies default_globals mixed_world
         [py ''1.2.3.4:8080'', py ''badhost:9999''] example_checker))"
proof -
  let ?ps = "[py ''1.2.3.4:8080'', py ''badhost:9999'']"
  let ?r = "run zero_workers mixed_world example_checker"
  let ?c = "check_all_proxies default_globals mixed_world ?ps example_checker"
  have lines: "open_read mixed_world (proxy_file example_checker) = FileLines mixed_file"
    by (simp add: mixed_world_fields)
  have none: "MAX_WORKERS zero_workers \<le> 0"
    by (simp add: zero_workers_def)
  have some: "nonblank_lines mixed_file \<noteq> []"
    by (simp add: mixed_nonblank)
  have pos: "0 < MAX_WORKERS default_globals"
    by (simp add: default_globals_def)
  have 1: "fst ?r = Raise ValueError"
    by (rule run_no_pool_outcome(1) [OF lines none some])
  have 2: "working_proxies (snd ?r) = []"
    by (simp add: run_no_pool(1) [OF lines none] example_checker_fields)
  have 3: "failed_proxies (snd ?r) = []"
    by (simp add: run_no_pool(2) [OF lines none] example_checker_fields)
  have 4: "total_proxies (snd ?r) = 2"
    by (simp add: run_no_pool_outcome(2) [OF lines none some] mixed_nonblank)
  have 5: "length (working_proxies (snd ?r)) + length (failed_proxies (snd ?r)) \<noteq> total_proxies (snd ?r)"
    by (simp add: 2 3 4)
  have 6: "fst ?c = Raise ZeroDivisionError"
    using pos by (simp add: check_all_proxies_outcome example_checker_fields)
  have wk: "working_proxies (snd ?c) = [py ''1.2.3.4:8080'']"
    using check_all_proxies_lists [OF pos, of mixed_world ?ps example_checker]
    by (simp add: mixed_completed example_checker_fields)
  have fl: "failed_proxies (snd ?c) = [py ''badhost:9999'']"
    using check_all_proxies_lists [OF pos, of mixed_world ?ps example_checker]
    by (simp add: mixed_completed example_checker_fields)
  have tot: "total_proxies (snd ?c) = 0"
    by (simp add: check_all_proxies_frame example_checker_fields)
  have 7: "length (working_proxies (snd ?c)) + length (failed_proxies (snd ?c)) \<noteq> total_proxies (snd ?c)"
    by (simp add: wk fl tot)
  from 1 2 3 4 5 6 7 show ?thesis by (intro conjI)
qed

section \<open>Properties of a run of a fresh checker\<close>

text \<open>The summary lines of a run: none, unless candidates were found and the pool could be
  created; then the four lines of the block, with the number of candidates as total.\<close>

lemma run_init_summary:
  "filter is_summary_line (stdout (snd (run g w (init pf ofile t)))) =
     (case open_read w pf of
        FileLines f \<Rightarrow>
          if nonblank_lines f = [] \<or> MAX_WORKERS g \<le> 0 then []
          else [CompletedMsg (batch_clock_end w - batch_clock_start w),
                WorkingCountMsg (length (working_proxies (snd (run g w (init pf ofile t))))) (length (nonblank_lines f)),
                FailedCountMsg (length (failed_proxies (snd (run g w (init pf ofile t))))) (length (nonblank_lines f)),
                SuccessRateMsg (length (working_proxies (snd (run g w (init pf ofile t))))) (length (nonblank_lines f))]
      | FileNotFoundError \<Rightarrow> []
      | ReadException \<Rightarrow> [])"
proof (cases "open_read w pf")
  case (FileLines f)
  then have lines: "open_read w (proxy_file (init pf ofile t)) = FileLines f"
    by (simp add: init_fields)
  show ?thesis
  proof (cases "MAX_WORKERS g \<le> 0")
    case True
    then show ?thesis
      by (simp add: FileLines run_no_pool(6) [OF lines True] init_fields)
  next
    case False
    then have pos: "0 < MAX_WORKERS g" by simp
    show ?thesis
      using False by (simp add: FileLines run_summary [OF lines pos] init_fields)
  qed
next
  case FileNotFoundError
  then have "open_read w (proxy_file (init pf ofile t)) = FileNotFoundError
      \<or> open_read w (proxy_file (init pf ofile t)) = ReadException"
    by (simp add: init_fields)
  then show ?thesis
    by (simp add: FileNotFoundError run_load_fails init_fields)
next
  case ReadException
  then have "open_read w (proxy_file (init pf ofile t)) = FileNotFoundError
      \<or> open_read w (proxy_file (init pf ofile t)) = ReadException"
    by (simp add: init_fields)
  then show ?thesis
    by (simp add: ReadException run_load_fails init_fields)
qed

lemma run_no_zero_division: "fst (run g w self) \<noteq> Raise ZeroDivisionError"
proof (cases "open_read w (proxy_file self)")
  case (FileLines f)
  show ?thesis
  proof (cases "MAX_WORKERS g \<le> 0")
    case True
    then show ?thesis by (rule run_no_pool(5) [OF FileLines])
  next
    case False
    then have "0 < MAX_WORKERS g" by simp
    then show ?thesis by (simp add: run_lists(4) [OF FileLines])
  qed
next
  case FileNotFoundError
  then show ?thesis by (simp add: run_load_fails)
next
  case ReadException
  then show ?thesis by (simp add: run_load_fails)
qed

text \<open>
  Claim C7. \<open>run\<close> never ends in \<^verbatim>\<open>ZeroDivisionError\<close>, from any state of the
  checker and in any world. In a run of a fresh checker every success rate that is
  computed has a total greater than zero, and a summary line is printed only if the
  input file was read and held at least one candidate: the guard in \<open>run\<close> returns
  before \<open>check_all_proxies\<close> when the list is empty, and \<open>load_proxies\<close> has set
  \<open>total_proxies\<close> to the length of the list. (Called on its own with
  \<open>total_proxies\<close> still 0, \<open>check_all_proxies\<close> does raise at the rate line:
  lemma \<open>check_all_proxies_outcome\<close>.)
\<close>

theorem run_never_divides_by_zero:
  "fst (run g w self) \<noteq> Raise ZeroDivisionError
   \<and> (\<forall>n tot. SuccessRateMsg n tot \<in> set (stdout (snd (run g w (init pf ofile t)))) \<longrightarrow> 0 < tot)
   \<and> (list_ex is_summary_line (stdout (snd (run g w (init pf ofile t)))) \<longrightarrow>
        (\<exists>f. open_read w pf = FileLines f \<and> nonblank_lines f \<noteq> []))"
proof (intro conjI allI impI)
  show "fst (run g w self) \<noteq> Raise ZeroDivisionError"
    by (rule run_no_zero_division)
next
  fix n tot
  assume "SuccessRateMsg n tot \<in> set (stdout (snd (run g w (init pf ofile t))))"
  then have "SuccessRateMsg n tot \<in> set (filter is_summary_line (stdout (snd (run g w (init pf ofile t)))))"
    by simp
  then show "0 < tot"
    unfolding run_init_summary
    by (cases "open_read w pf") (auto split: if_splits)
next
  assume "list_ex is_summary_line (stdout (snd (run g w (init pf ofile t))))"
  then have "filter is_summary_line (stdout (snd (run g w (init pf ofile t)))) \<noteq> []"
    by (simp add: list_ex_iff filter_empty_conv)
  then show "\<exists>f. open_read w pf = FileLines f \<and> nonblank_lines f \<noteq> []"
    unfolding run_init_summary
    by (cases "open_read w pf") (auto split: if_splits)
qed


lemma mixed_run_lists:
  "working_proxies (snd (run default_globals mixed_world example_checker)) = [py ''1.2.3.4:8080'']"
  "failed_proxies (snd (run default_globals mixed_world example_checker)) = [py ''badhost:9999'']"
proof -
  have lines: "open_read mixed_world (proxy_file example_checker) = FileLines mixed_file"
    by (simp add: mixed_world_def)
  have pos: "0 < MAX_WORKERS default_globals"
    by (simp add: default_globals_def)
  show "working_proxies (snd (run default_globals mixed_world example_checker)) = [py ''1.2.3.4:8080'']"
    by (simp add: run_lists(1) [OF lines pos] mixed_nonblank mixed_completed example_checker_fields)
  show "failed_proxies (snd (run default_globals mixed_world example_checker)) = [py ''badhost:9999'']"
    by (simp add: run_lists(2) [OF lines pos] mixed_nonblank mixed_completed example_checker_fields)
qed

theorem run_never_divides_by_zero_witness:
  "SuccessRateMsg 1 2 \<in> set (stdout (snd (run default_globals mixed_world example_checker)))
   \<and> (0::nat) < 2
   \<and> list_ex is_summary_line (stdout (snd (run default_globals mixed_world example_checker)))
   \<and> (\<exists>f. open_read mixed_world (py ''proxies.txt'') = FileLines f \<and> nonblank_lines f \<noteq> [])"
proof -
  note inst = run_never_divides_by_zero [of default_globals mixed_world example_checker
      "py ''proxies.txt''" None TIMEOUT, folded example_checker_def]
  have "open_read mixed_world (py ''proxies.txt'') = FileLines mixed_file"
    by (simp add: mixed_world_def)
  moreover have "0 < MAX_WORKERS default_globals"
    by (simp add: default_globals_def)
  ultimately have "filter is_summary_line (stdout (snd (run default_globals mixed_world example_checker)))
      = [CompletedMsg 4, WorkingCountMsg 1 2, FailedCountMsg 1 2, SuccessRateMsg 1 2]"
    using run_init_summary [of default_globals mixed_world "py ''proxies.txt''" None TIMEOUT, folded example_checker_def]
    by (simp add: mixed_nonblank mixed_run_lists) (simp add: mixed_world_def)
  then have "set (filter is_summary_line (stdout (snd (run default_globals mixed_world example_checker))))
      = {CompletedMsg 4, WorkingCountMsg 1 2, FailedCountMsg 1 2, SuccessRateMsg 1 2}"
    by simp
  then have rate: "SuccessRateMsg 1 2 \<in> set (stdout (snd (run default_globals mixed_world example_checker)))"
    by auto
  then have summ: "list_ex is_summary_line (stdout (snd (run default_globals mixed_world example_checker)))"
    unfolding list_ex_iff by (intro bexI [where x = "SuccessRateMsg 1 2"]) simp_all
  from inst rate have "(0::nat) < 2" by blast
  moreover from inst summ
  have "\<exists>f. open_read mixed_world (py ''proxies.txt'') = FileLines f \<and> nonblank_lines f \<noteq> []"
    by blast
  ultimately show ?thesis using rate summ by blast
qed

text \<open>
  Claim C4, as stated, does not hold: for a file of blank lines only, \<open>run\<close> prints no
  summary line at all (no counts, no rate); the example is the file of the two lines
  \<^verbatim>\<open>" \n"\<close> and \<^verbatim>\<open>"\n"\<close>.
\<close>

theorem run_blank_file_counterexample:
  "\<not> list_ex is_summary_line (stdout (snd (run default_globals blank_world example_checker)))"
proof -
  have "open_read blank_world (py ''proxies.txt'') = FileLines [[32, 10], [10]]"
    by (simp add: blank_world_def)
  then have "filter is_summary_line (stdout (snd (run default_globals blank_world example_checker))) = []"
    using run_init_summary [of default_globals blank_world "py ''proxies.txt''" None TIMEOUT, folded example_checker_def]
    by (simp add: blank_nonblank)
  then show ?thesis
    by (simp add: list_ex_iff filter_empty_conv)
qed

text \<open>
  Claim C4, amended. If the input file exists and every line of it consists of whitespace
  only, \<open>run\<close> returns normally after printing the banner, the line reporting that 0
  proxies were loaded and the notice that no proxies were found. Nothing else happens: no
  summary is printed, no division is performed, no file is written, and
  \<open>total_proxies\<close> is 0.
\<close>

theorem run_blank_file:
  assumes "open_read w (proxy_file self) = FileLines f"
    and "\<forall>l \<in> set f. \<forall>c \<in> set l. isspace c"
  shows "run g w self =
    (Return (),
     self\<lparr>total_proxies := 0,
          stdout := stdout self @ [Rule, Title, Rule, Loaded 0 (proxy_file self), NoProxiesMsg]\<rparr>)"
proof -
  have "\<forall>l \<in> set f. strip l = []"
    using assms(2) by (simp add: strip_empty_iff)
  then have "nonblank_lines f = []"
    by (simp add: nonblank_lines_def filter_empty_conv)
  then show ?thesis
    by (simp add: run_lines [OF assms(1)] loaded_state_def print_def)
qed

theorem run_blank_file_witness:
  "run default_globals blank_world example_checker =
    (Return (),
     example_checker\<lparr>total_proxies := 0,
          stdout := [Rule, Title, Rule, Loaded 0 (py ''proxies.txt''), NoProxiesMsg]\<rparr>)"
proof -
  have lines: "open_read blank_world (proxy_file example_checker) = FileLines [[32, 10], [10]]"
    by (simp add: blank_world_def)
  have blank: "\<forall>l \<in> set [[32, 10], [10::nat]]. \<forall>c \<in> set l. isspace c"
    by (simp add: isspace_def)
  from run_blank_file [OF lines blank, of default_globals] show ?thesis
    by (simp add: example_checker_fields)
qed


text \<open>
  Claim C5. \<open>save_working_proxies\<close> never raises. With an empty working list it
  changes no file and prints that there is nothing to save. With a non-empty working list
  and an output file that can be written, it writes the file, which then holds exactly
  the working addresses in the order collected, each followed by a line feed, and prints
  where they were saved; when opening or writing fails, the error is printed and the
  method returns. Read back line by line, the text written gives the working list again
  (for addresses without a line feed, as stripped lines are). In a run of a fresh checker
  whose output file can be written, the file written is the one made of the addresses of
  the results that are Working, in completion order, and there is no file when no result
  is Working; an address of a Failed result is never written.
\<close>

theorem save_working_proxies_contract:
  "fst (save_working_proxies w self) = Return ()
   \<and> (working_proxies self = [] \<longrightarrow>
        snd (save_working_proxies w self) = print NothingToSaveMsg self)
   \<and> (working_proxies self \<noteq> [] \<and> open_write w (output_file self) = WriteOk \<longrightarrow>
        snd (save_working_proxies w self) =
          print (SavedMsg (output_file self))
            (self\<lparr>files := (files self)(output_file self \<mapsto> file_text (working_proxies self))\<rparr>))
   \<and> (working_proxies self \<noteq> [] \<and> open_write w (output_file self) \<noteq> WriteOk \<longrightarrow>
        stdout (snd (save_working_proxies w self)) = stdout self @ [SaveErrorMsg])
   \<and> ((\<forall>p \<in> set (working_proxies self). 10 \<notin> set p) \<longrightarrow>
        read_lines [] (file_text (working_proxies self)) = working_proxies self)
   \<and> (0 < MAX_WORKERS g \<and> open_read w pf = FileLines f
        \<and> open_write w (output_file (init pf ofile t)) = WriteOk \<longrightarrow>
        files (snd (run g w (init pf ofile t))) =
          (if \<forall>r \<in> set (completed g w (init pf ofile t) (nonblank_lines f)). \<not> fst (snd r) then Map.empty
           else [output_file (init pf ofile t) \<mapsto>
                   file_text (map fst (filter (\<lambda>r. fst (snd r))
                     (completed g w (init pf ofile t) (nonblank_lines f))))]))"
proof (intro conjI impI)
  show "fst (save_working_proxies w self) = Return ()"
    by (rule save_working_proxies_outcome)
  show "snd (save_working_proxies w self) = print NothingToSaveMsg self" if "working_proxies self = []"
    using that by (simp add: save_working_proxies_def)
  show "snd (save_working_proxies w self) =
          print (SavedMsg (output_file self))
            (self\<lparr>files := (files self)(output_file self \<mapsto> file_text (working_proxies self))\<rparr>)"
    if "working_proxies self \<noteq> [] \<and> open_write w (output_file self) = WriteOk"
    using that by (simp add: save_working_proxies_def)
  show "stdout (snd (save_working_proxies w self)) = stdout self @ [SaveErrorMsg]"
    if "working_proxies self \<noteq> [] \<and> open_write w (output_file self) \<noteq> WriteOk"
    using that by (cases "open_write w (output_file self)") (simp_all add: save_working_proxies_def print_def)
  show "read_lines [] (file_text (working_proxies self)) = working_proxies self"
    if "\<forall>p \<in> set (working_proxies self). 10 \<notin> set p"
    using that by (rule read_lines_file_text)
  show "files (snd (run g w (init pf ofile t))) =
          (if \<forall>r \<in> set (completed g w (init pf ofile t) (nonblank_lines f)). \<not> fst (snd r) then Map.empty
           else [output_file (init pf ofile t) \<mapsto>
                   file_text (map fst (filter (\<lambda>r. fst (snd r))
                     (completed g w (init pf ofile t) (nonblank_lines f))))])"
    if h: "0 < MAX_WORKERS g \<and> open_read w pf = FileLines f
        \<and> open_write w (output_file (init pf ofile t)) = WriteOk"
  proof -
    from h have lines: "open_read w (proxy_file (init pf ofile t)) = FileLines f"
      by (simp add: init_fields)
    from h have pos: "0 < MAX_WORKERS g" by simp
    have empty: "working_proxies (init pf ofile t) = []" by (simp add: init_fields)
    show ?thesis
      using h
      by (simp add: run_files [OF lines pos empty] run_lists(1) [OF lines pos] init_fields filter_empty_conv)
  qed
qed


theorem save_working_proxies_contract_witness:
  "snd (save_working_proxies mixed_world example_checker) = print NothingToSaveMsg example_checker
   \<and> files (snd (save_working_proxies mixed_world (example_checker\<lparr>working_proxies := [py ''1.2.3.4:8080'']\<rparr>)))
       = [py ''working_proxies.txt'' \<mapsto> py ''1.2.3.4:8080'' @ [10]]
   \<and> fst (save_working_proxies readonly_world (example_checker\<lparr>working_proxies := [py ''1.2.3.4:8080'']\<rparr>)) = Return ()
   \<and> stdout (snd (save_working_proxies readonly_world (example_checker\<lparr>working_proxies := [py ''1.2.3.4:8080'']\<rparr>)))
       = [SaveErrorMsg]
   \<and> read_lines [] (py ''1.2.3.4:8080'' @ [10]) = [py ''1.2.3.4:8080'']
   \<and> files (snd (run default_globals mixed_world example_checker))
       = [py ''working_proxies.txt'' \<mapsto> py ''1.2.3.4:8080'' @ [10]]"
proof -
  let ?s = "example_checker\<lparr>working_proxies := [py ''1.2.3.4:8080'']\<rparr>"
  note none = save_working_proxies_contract [of mixed_world example_checker default_globals
      "py ''proxies.txt''" mixed_file None TIMEOUT, folded example_checker_def]
  note some = save_working_proxies_contract [of mixed_world ?s default_globals
      "py ''proxies.txt''" mixed_file None TIMEOUT, folded example_checker_def]
  note fail = save_working_proxies_contract [of readonly_world ?s default_globals
      "py ''proxies.txt''" mixed_file None TIMEOUT, folded example_checker_def]
  have 1: "snd (save_working_proxies mixed_world example_checker) = print NothingToSaveMsg example_checker"
    using none by (simp add: example_checker_fields)
  have ok: "working_proxies ?s \<noteq> [] \<and> open_write mixed_world (output_file ?s) = WriteOk"
    by (simp add: mixed_world_def)
  with some have "snd (save_working_proxies mixed_world ?s) =
      print (SavedMsg (output_file ?s)) (?s\<lparr>files := (files ?s)(output_file ?s \<mapsto> file_text (working_proxies ?s))\<rparr>)"
    by blast
  then have 2: "files (snd (save_working_proxies mixed_world ?s))
       = [py ''working_proxies.txt'' \<mapsto> py ''1.2.3.4:8080'' @ [10]]"
    by (simp add: print_def example_checker_fields file_text_def)
  from fail have 3: "fst (save_working_proxies readonly_world ?s) = Return ()"
    by blast
  have bad: "working_proxies ?s \<noteq> [] \<and> open_write readonly_world (output_file ?s) \<noteq> WriteOk"
    by (simp add: readonly_world_def)
  with fail have "stdout (snd (save_working_proxies readonly_world ?s)) = stdout ?s @ [SaveErrorMsg]"
    by blast
  then have 4: "stdout (snd (save_working_proxies readonly_world ?s)) = [SaveErrorMsg]"
    by (simp add: example_checker_fields)
  have "\<forall>p \<in> set (working_proxies ?s). 10 \<notin> set p"
    by (simp add: py_def)
  with some have "read_lines [] (file_text (working_proxies ?s)) = working_proxies ?s"
    by blast
  then have 5: "read_lines [] (py ''1.2.3.4:8080'' @ [10]) = [py ''1.2.3.4:8080'']"
    by (simp add: file_text_def)
  have "0 < MAX_WORKERS default_globals \<and> open_read mixed_world (py ''proxies.txt'') = FileLines mixed_file
        \<and> open_write mixed_world (output_file example_checker) = WriteOk"
    by (simp add: default_globals_def mixed_world_def)
  with none have "files (snd (run default_globals mixed_world example_checker)) =
          (if \<forall>r \<in> set (completed default_globals mixed_world example_checker (nonblank_lines mixed_file)). \<not> fst (snd r)
           then Map.empty
           else [output_file example_checker \<mapsto>
                   file_text (map fst (filter (\<lambda>r. fst (snd r))
                     (completed default_globals mixed_world example_checker (nonblank_lines mixed_file))))])"
    by blast
  then have 6: "files (snd (run default_globals mixed_world example_checker))
       = [py ''working_proxies.txt'' \<mapsto> py ''1.2.3.4:8080'' @ [10]]"
    by (simp add: mixed_nonblank mixed_completed example_checker_fields file_text_def)
  from 1 2 3 4 5 6 show ?thesis by (intro conjI)
qed







end
